theory Spec2Isabelle
  imports Complex_Main
begin

section \<open>Token estimate (edge functions)\<close>

text \<open>
  \<^verbatim>\<open>function estimateTokens(text: string): number { return Math.ceil(text.length / 4); }\<close>

  The same function occurs in the AI-gateway and in the Lambda-with-key edge function.
  \<^verbatim>\<open>text.length\<close> counts the code units of the string; the model is polymorphic in the
  type of code units, and the division is the exact (non-truncating) division of the
  source, followed by \<^verbatim>\<open>Math.ceil\<close>.
\<close>

definition estimateTokens :: "'u list \<Rightarrow> nat" where
  "estimateTokens text = nat \<lceil>real (length text) / 4\<rceil>"

section \<open>Feedback records (useAnalytics.ts)\<close>

datatype rating = Like | Dislike

record FeedbackRecord =
  messageId :: string
  rating :: rating

text \<open>
  \<^verbatim>\<open>trackFeedback(messageId, rating)\<close>: the state updater of the feedback list. An existing
  record for the id has its rating replaced in place, otherwise a record is appended.
\<close>

definition trackFeedback :: "string \<Rightarrow> rating \<Rightarrow> FeedbackRecord list \<Rightarrow> FeedbackRecord list" where
  "trackFeedback mid r prev =
     (case find (\<lambda>f. messageId f = mid) prev of
        Some existing \<Rightarrow> map (\<lambda>f. if messageId f = mid then f\<lparr>rating := r\<rparr> else f) prev
      | None \<Rightarrow> prev @ [\<lparr>messageId = mid, rating = r\<rparr>])"

text \<open>
  The feedback list starts empty (\<^verbatim>\<open>useState([])\<close>); a sequence of calls is applied in
  order.
\<close>

definition feedbackRecords_after :: "(string \<times> rating) list \<Rightarrow> FeedbackRecord list" where
  "feedbackRecords_after calls = foldl (\<lambda>prev (mid, r). trackFeedback mid r prev) [] calls"

section \<open>JavaScript values and the platform\<close>

text \<open>
  Values as the code sees them at run time: what \<^verbatim>\<open>JSON.parse\<close> and \<^verbatim>\<open>response.json()\<close>
  return is untyped, so parsed data is a \<open>jsval\<close>. Numbers are the integer-valued
  numbers (epoch milliseconds, seconds, token counts, HTTP status codes: all far below
  \<open>2^53\<close>, where the arithmetic of the source is exact) and \<open>JNaN\<close>.
\<close>

datatype jsval =
    JUndefined
  | JNull
  | JBool bool
  | JNum int
  | JNaN
  | JStr string
  | JArr "jsval list"
  | JObj "(string \<times> jsval) list"

text \<open>What a \<^verbatim>\<open>throw\<close> carries: an \<^verbatim>\<open>Error\<close> made by the code, or an error of the runtime.\<close>

datatype js_error =
    Error string
  | TypeError
  | SyntaxError
  | RangeError
  | FetchFailed

text \<open>
  The builtins the code calls and whose full definition is not part of the repository
  are parameters: \<^verbatim>\<open>JSON.parse\<close> (\<open>None\<close> is its \<^verbatim>\<open>SyntaxError\<close>),
  \<^verbatim>\<open>JSON.stringify\<close>, the string conversion of a value that is not a string, the
  number conversion of a string, the source text a builtin function converts to, the
  message of an error the runtime throws, and \<^verbatim>\<open>new Date(s).toISOString()\<close> (\<open>None\<close> is the
  \<^verbatim>\<open>RangeError\<close> it throws when \<open>s\<close> is no date).
\<close>

record platform =
  JSON_parse :: "string \<Rightarrow> jsval option"
  JSON_stringify :: "jsval \<Rightarrow> string"
  ToString_other :: "jsval \<Rightarrow> string"
  StringToNumber :: "string \<Rightarrow> int option"
  function_source :: "string \<Rightarrow> string"
  runtime_message :: "js_error \<Rightarrow> string"
  Date_toISOString :: "string \<Rightarrow> string option"

fun truthy :: "jsval \<Rightarrow> bool" where
  "truthy JUndefined = False"
| "truthy JNull = False"
| "truthy (JBool b) = b"
| "truthy (JNum n) = (n \<noteq> 0)"
| "truthy JNaN = False"
| "truthy (JStr s) = (s \<noteq> [])"
| "truthy (JArr xs) = True"
| "truthy (JObj kvs) = True"

text \<open>\<^verbatim>\<open>a || b\<close>\<close>

definition js_or :: "jsval \<Rightarrow> jsval \<Rightarrow> jsval" where
  "js_or a b = (if truthy a then a else b)"

fun ToString :: "platform \<Rightarrow> jsval \<Rightarrow> string" where
  "ToString p (JStr s) = s"
| "ToString p v = ToString_other p v"

text \<open>
  \<open>ToNumber\<close>, with \<open>None\<close> for NaN: a string converts by the platform's rule, an array
  or object through its string conversion.
\<close>

fun ToNumber :: "platform \<Rightarrow> jsval \<Rightarrow> int option" where
  "ToNumber p JUndefined = None"
| "ToNumber p JNull = Some 0"
| "ToNumber p (JBool b) = Some (if b then 1 else 0)"
| "ToNumber p (JNum n) = Some n"
| "ToNumber p JNaN = None"
| "ToNumber p (JStr s) = StringToNumber p s"
| "ToNumber p (JArr xs) = StringToNumber p (ToString_other p (JArr xs))"
| "ToNumber p (JObj kvs) = StringToNumber p (ToString_other p (JObj kvs))"

definition of_number :: "int option \<Rightarrow> jsval" where
  "of_number r = (case r of None \<Rightarrow> JNaN | Some n \<Rightarrow> JNum n)"

fun arith :: "(int \<Rightarrow> int \<Rightarrow> int) \<Rightarrow> int option \<Rightarrow> int option \<Rightarrow> int option" where
  "arith f (Some x) (Some y) = Some (f x y)"
| "arith f _ _ = None"

text \<open>\<^verbatim>\<open>a - b\<close>, \<^verbatim>\<open>a * b\<close>, and \<^verbatim>\<open>a + b\<close> where both operands are numbers.\<close>

definition js_sub :: "platform \<Rightarrow> jsval \<Rightarrow> jsval \<Rightarrow> jsval" where
  "js_sub p a b = of_number (arith (\<lambda>x y. x - y) (ToNumber p a) (ToNumber p b))"

definition js_mul :: "platform \<Rightarrow> jsval \<Rightarrow> jsval \<Rightarrow> jsval" where
  "js_mul p a b = of_number (arith (\<lambda>x y. x * y) (ToNumber p a) (ToNumber p b))"

definition js_add_numbers :: "platform \<Rightarrow> jsval \<Rightarrow> jsval \<Rightarrow> jsval" where
  "js_add_numbers p a b = of_number (arith (\<lambda>x y. x + y) (ToNumber p a) (ToNumber p b))"

text \<open>
  \<^verbatim>\<open>a < b\<close> and \<^verbatim>\<open>a >= b\<close> where the right operand is a number: the comparison is
  numeric, and false as soon as the left operand converts to NaN.
\<close>

fun js_lt :: "platform \<Rightarrow> jsval \<Rightarrow> int \<Rightarrow> bool" where
  "js_lt p a n = (case ToNumber p a of None \<Rightarrow> False | Some x \<Rightarrow> x < n)"

fun js_ge :: "platform \<Rightarrow> jsval \<Rightarrow> int \<Rightarrow> bool" where
  "js_ge p a n = (case ToNumber p a of None \<Rightarrow> False | Some x \<Rightarrow> n \<le> x)"

text \<open>
  Reading a property of parsed JSON. The names the code reads this way (\<^verbatim>\<open>expiresAt\<close>,
  \<^verbatim>\<open>refreshToken\<close>, \<^verbatim>\<open>statusCode\<close>, \<^verbatim>\<open>body\<close>, \<^verbatim>\<open>error\<close>, \<^verbatim>\<open>token\<close>, ...) are defined
  by no prototype, so the value is the own property of an object and \<^verbatim>\<open>undefined\<close> on
  anything else. \<open>read_member\<close> is \<^verbatim>\<open>v.k\<close>, which throws on \<^verbatim>\<open>null\<close> and \<^verbatim>\<open>undefined\<close>;
  \<open>read_optional\<close> is \<^verbatim>\<open>v?.k\<close>.
\<close>

fun property :: "jsval \<Rightarrow> string \<Rightarrow> jsval" where
  "property (JObj kvs) k = (case map_of kvs k of None \<Rightarrow> JUndefined | Some v \<Rightarrow> v)"
| "property _ k = JUndefined"

definition nullish :: "jsval \<Rightarrow> bool" where
  "nullish v = (v = JNull \<or> v = JUndefined)"

definition read_member :: "jsval \<Rightarrow> string \<Rightarrow> js_error + jsval" where
  "read_member v k = (if nullish v then Inl TypeError else Inr (property v k))"

definition read_optional :: "jsval \<Rightarrow> string \<Rightarrow> jsval" where
  "read_optional v k = (if nullish v then JUndefined else property v k)"

section \<open>Configuration, storage and network\<close>

text \<open>\<^verbatim>\<open>AWS_CONFIG\<close>: the endpoints and the API key come from the build environment.\<close>

record aws_config =
  chatEndpoint :: string
  authEndpoint :: string
  analyticsEndpoint :: string
  apiKey :: string

definition tokenStorageKey :: string where
  "tokenStorageKey = ''aws_auth_token''"

definition sessionStorageKey :: string where
  "sessionStorageKey = ''aws_session_id''"

text \<open>\<^verbatim>\<open>localStorage\<close> and \<^verbatim>\<open>sessionStorage\<close>: strings under string keys.\<close>

type_synonym storage = "string \<rightharpoonup> string"

text \<open>
  What \<^verbatim>\<open>fetch\<close> gives back is an input of the model: a rejected promise, or a response
  with its status and body text. Each call made is recorded with its URL, headers and
  JSON payload.
\<close>

record http_response =
  http_status :: int
  http_body :: string

datatype fetch_result = NetworkFailure | Response http_response

datatype net_call = Fetch string "(string \<times> string) list" jsval

definition response_ok :: "http_response \<Rightarrow> bool" where
  "response_ok r = (200 \<le> http_status r \<and> http_status r \<le> 299)"

definition response_json :: "platform \<Rightarrow> http_response \<Rightarrow> js_error + jsval" where
  "response_json p r = (case JSON_parse p (http_body r) of None \<Rightarrow> Inl SyntaxError | Some v \<Rightarrow> Inr v)"

definition api_headers :: "aws_config \<Rightarrow> (string \<times> string) list" where
  "api_headers cfg =
     (''Content-Type'', ''application/json'') #
     (if apiKey cfg \<noteq> [] then [(''x-api-key'', apiKey cfg)] else [])"

section \<open>Authentication client (auth.ts)\<close>

text \<open>
  \<^verbatim>\<open>getStoredSession()\<close>. The body of the \<^verbatim>\<open>try\<close> block first: the stored string is read,
  parsed, and its \<^verbatim>\<open>expiresAt\<close> compared with \<^verbatim>\<open>Date.now()\<close> (the argument \<open>now\<close>).
  Reading \<^verbatim>\<open>expiresAt\<close> of a parsed \<^verbatim>\<open>null\<close> throws.
\<close>

definition getStoredSession_try :: "platform \<Rightarrow> int \<Rightarrow> storage \<Rightarrow> (js_error + jsval) \<times> storage" where
  "getStoredSession_try p now ls =
     (case ls tokenStorageKey of
        None \<Rightarrow> (Inr JNull, ls)
      | Some stored \<Rightarrow>
          if stored = [] then (Inr JNull, ls)
          else (case JSON_parse p stored of
                  None \<Rightarrow> (Inl SyntaxError, ls)
                | Some session \<Rightarrow>
                    (case read_member session ''expiresAt'' of
                       Inl e \<Rightarrow> (Inl e, ls)
                     | Inr expiresAt \<Rightarrow>
                         if js_lt p expiresAt now
                         then (Inr JNull, ls(tokenStorageKey := None))
                         else (Inr session, ls))))"

text \<open>The \<^verbatim>\<open>catch\<close> turns every exception into \<^verbatim>\<open>null\<close>.\<close>

definition getStoredSession :: "platform \<Rightarrow> int \<Rightarrow> storage \<Rightarrow> jsval \<times> storage" where
  "getStoredSession p now ls =
     (case getStoredSession_try p now ls of
        (Inl e, ls') \<Rightarrow> (JNull, ls')
      | (Inr v, ls') \<Rightarrow> (v, ls'))"

definition storeSession :: "platform \<Rightarrow> jsval \<Rightarrow> storage \<Rightarrow> storage" where
  "storeSession p session ls = ls(tokenStorageKey \<mapsto> JSON_stringify p session)"

definition clearSession :: "storage \<Rightarrow> storage" where
  "clearSession ls = ls(tokenStorageKey := None)"

text \<open>
  \<^verbatim>\<open>parseLambdaResponse\<close> of auth.ts: a response with truthy \<^verbatim>\<open>statusCode\<close> and \<^verbatim>\<open>body\<close>
  is a proxy envelope, whose body is parsed, an unparsable body becoming
  \<^verbatim>\<open>{ error: body }\<close>.
\<close>

definition auth_parseLambdaResponse :: "platform \<Rightarrow> jsval \<Rightarrow> js_error + jsval" where
  "auth_parseLambdaResponse p response =
     (case read_member response ''statusCode'' of
        Inl e \<Rightarrow> Inl e
      | Inr statusCode \<Rightarrow>
          if truthy statusCode \<and> truthy (property response ''body'')
          then (case JSON_parse p (ToString p (property response ''body'')) of
                  Some v \<Rightarrow> Inr v
                | None \<Rightarrow> Inr (JObj [(''error'', property response ''body'')]))
          else Inr response)"

text \<open>\<^verbatim>\<open>Date.now() + (parsed.expiresIn || 3600) * 1000\<close>\<close>

definition expiry :: "platform \<Rightarrow> int \<Rightarrow> jsval \<Rightarrow> jsval" where
  "expiry p now parsed =
     js_add_numbers p (JNum now) (js_mul p (js_or (property parsed ''expiresIn'') (JNum 3600)) (JNum 1000))"

text \<open>
  \<^verbatim>\<open>login\<close> and \<^verbatim>\<open>signup\<close> have the same body up to the path and the default message;
  \<open>auth_request\<close> is that body. The result is the returned session or the exception,
  with the storage after the call and the requests made.
\<close>

definition auth_request ::
  "string \<Rightarrow> string \<Rightarrow> platform \<Rightarrow> aws_config \<Rightarrow> int \<Rightarrow> fetch_result \<Rightarrow> jsval \<Rightarrow> storage
     \<Rightarrow> (js_error + jsval) \<times> storage \<times> net_call list" where
  "auth_request path failed p cfg now fetched credentials ls =
     (let calls = [Fetch (authEndpoint cfg @ path) (api_headers cfg) credentials] in
      case fetched of
        NetworkFailure \<Rightarrow> (Inl FetchFailed, ls, calls)
      | Response response \<Rightarrow>
          (case response_json p response of
             Inl e \<Rightarrow> (Inl e, ls, calls)
           | Inr data \<Rightarrow>
               (case auth_parseLambdaResponse p data of
                  Inl e \<Rightarrow> (Inl e, ls, calls)
                | Inr parsed \<Rightarrow>
                    (case read_member parsed ''error'' of
                       Inl e \<Rightarrow> (Inl e, ls, calls)
                     | Inr perror \<Rightarrow>
                         if \<not> response_ok response \<or> truthy perror
                         then (Inl (Error (ToString p
                                 (js_or perror (js_or (property parsed ''message'') (JStr failed))))),
                               ls, calls)
                         else if \<not> truthy (property parsed ''token'') \<or> \<not> truthy (property parsed ''user'')
                         then (Inl (Error ''Invalid auth response: missing token or user''), ls, calls)
                         else
                           (let session = JObj
                                  [(''token'', property parsed ''token''),
                                   (''refreshToken'', property parsed ''refreshToken''),
                                   (''expiresAt'', expiry p now parsed),
                                   (''user'', property parsed ''user'')]
                            in (Inr session, storeSession p session ls, calls))))))"

definition login ::
  "platform \<Rightarrow> aws_config \<Rightarrow> int \<Rightarrow> fetch_result \<Rightarrow> jsval \<Rightarrow> storage
     \<Rightarrow> (js_error + jsval) \<times> storage \<times> net_call list" where
  "login = auth_request ''/login'' ''Login failed''"

definition signup ::
  "platform \<Rightarrow> aws_config \<Rightarrow> int \<Rightarrow> fetch_result \<Rightarrow> jsval \<Rightarrow> storage
     \<Rightarrow> (js_error + jsval) \<times> storage \<times> net_call list" where
  "signup = auth_request ''/signup'' ''Signup failed''"

text \<open>
  \<^verbatim>\<open>refreshSession()\<close>. The \<^verbatim>\<open>try\<close> block after the decision to refresh: \<open>None\<close> is the
  response the code rejects, \<open>Inl\<close> an exception; both end in \<^verbatim>\<open>clearSession()\<close>.
\<close>

definition refresh_try :: "platform \<Rightarrow> int \<Rightarrow> fetch_result \<Rightarrow> jsval \<Rightarrow> js_error + jsval option" where
  "refresh_try p now fetched session =
     (case fetched of
        NetworkFailure \<Rightarrow> Inl FetchFailed
      | Response response \<Rightarrow>
          (case response_json p response of
             Inl e \<Rightarrow> Inl e
           | Inr data \<Rightarrow>
               (case auth_parseLambdaResponse p data of
                  Inl e \<Rightarrow> Inl e
                | Inr parsed \<Rightarrow>
                    (case read_member parsed ''error'' of
                       Inl e \<Rightarrow> Inl e
                     | Inr perror \<Rightarrow>
                         if \<not> response_ok response \<or> truthy perror \<or> \<not> truthy (property parsed ''token'')
                         then Inr None
                         else Inr (Some (JObj
                                [(''token'', property parsed ''token''),
                                 (''refreshToken'',
                                    js_or (property parsed ''refreshToken'') (property session ''refreshToken'')),
                                 (''expiresAt'', expiry p now parsed),
                                 (''user'', js_or (property parsed ''user'') (property session ''user''))]))))))"

text \<open>
  The three time arguments are the three readings of \<^verbatim>\<open>Date.now()\<close>, in program order:
  in \<^verbatim>\<open>getStoredSession\<close>, in the \<^verbatim>\<open>shouldRefresh\<close> test, and for the new expiry.
\<close>

definition refreshSession ::
  "platform \<Rightarrow> aws_config \<Rightarrow> int \<Rightarrow> int \<Rightarrow> int \<Rightarrow> fetch_result \<Rightarrow> storage
     \<Rightarrow> jsval \<times> storage \<times> net_call list" where
  "refreshSession p cfg read_at checked_at renewed_at fetched ls =
     (case getStoredSession p read_at ls of
        (session, ls1) \<Rightarrow>
          if \<not> truthy (read_optional session ''refreshToken'') then (JNull, ls1, [])
          else if \<not> js_lt p (js_sub p (property session ''expiresAt'') (JNum checked_at)) (5 * 60 * 1000)
          then (session, ls1, [])
          else
            (let calls = [Fetch (authEndpoint cfg @ ''/refresh'') (api_headers cfg)
                            (JObj [(''refreshToken'', property session ''refreshToken'')])]
             in case refresh_try p renewed_at fetched session of
                  Inl e \<Rightarrow> (JNull, clearSession ls1, calls)
                | Inr None \<Rightarrow> (JNull, clearSession ls1, calls)
                | Inr (Some newSession) \<Rightarrow> (newSession, storeSession p newSession ls1, calls)))"

section \<open>Chat API client (api-client.ts)\<close>

record chat_message =
  msg_role :: string
  msg_content :: string

text \<open>
  An optional field of a request: left out, present with the value \<^verbatim>\<open>null\<close>, or given.
  (The hooks send \<^verbatim>\<open>session_id: null\<close> on the first turn and leave \<^verbatim>\<open>rag_mode\<close> out.)
\<close>

datatype optional = Omitted | IsNull | Given string

text \<open>\<^verbatim>\<open>ChatRequest\<close>, its keys in the order of the interface and of the callers' literals.\<close>

record ChatRequest =
  req_messages :: "chat_message list"
  req_department :: string
  req_session_id :: optional
  req_locale :: optional
  req_rag_mode :: optional

text \<open>\<^verbatim>\<open>x || y\<close> on an optional string: the string when it is given and not empty.\<close>

definition truthy_string :: "optional \<Rightarrow> string option" where
  "truthy_string x = (case x of Given s \<Rightarrow> if s = [] then None else Some s | _ \<Rightarrow> None)"

text \<open>
  The entry of an optional field in a JSON payload: \<^verbatim>\<open>JSON.stringify\<close> leaves a field that
  is left out (or \<^verbatim>\<open>undefined\<close>) out.
\<close>

definition optional_entry :: "string \<Rightarrow> optional \<Rightarrow> (string \<times> jsval) list" where
  "optional_entry key x =
     (case x of Omitted \<Rightarrow> [] | IsNull \<Rightarrow> [(key, JNull)] | Given s \<Rightarrow> [(key, JStr s)])"

record ChatResponse =
  res_content :: jsval
  res_analytics :: jsval
  res_sources :: jsval

text \<open>
  \<^verbatim>\<open>isLambdaProxyResponse\<close>: an object (or array) that has both \<^verbatim>\<open>statusCode\<close> and \<^verbatim>\<open>body\<close>;
  no array has them.
\<close>

fun isLambdaProxyResponse :: "jsval \<Rightarrow> bool" where
  "isLambdaProxyResponse (JObj kvs) =
     (map_of kvs ''statusCode'' \<noteq> None \<and> map_of kvs ''body'' \<noteq> None)"
| "isLambdaProxyResponse _ = False"

text \<open>
  \<^verbatim>\<open>parseLambdaResponse\<close> of the API client: the body of an envelope is parsed, and a body
  that does not parse is an error naming it.
\<close>

definition client_parseLambdaResponse :: "platform \<Rightarrow> jsval \<Rightarrow> js_error + jsval" where
  "client_parseLambdaResponse p data =
     (if isLambdaProxyResponse data
      then (case JSON_parse p (ToString p (property data ''body'')) of
              Some v \<Rightarrow> Inr v
            | None \<Rightarrow> Inl (Error (''Failed to parse Lambda response body: ''
                                   @ ToString p (property data ''body''))))
      else Inr data)"

text \<open>
  Everything \<^verbatim>\<open>sendChatMessage\<close> reads from outside: the four readings of the clock (three
  in \<^verbatim>\<open>refreshSession\<close>, one in \<^verbatim>\<open>getAuthToken\<close>), the replies to the refresh and to the
  chat request, the session id \<^verbatim>\<open>generateSessionId()\<close> would make, and the timestamp.
\<close>

record chat_env =
  env_read_at :: int
  env_checked_at :: int
  env_renewed_at :: int
  env_token_read_at :: int
  refresh_reply :: fetch_result
  fresh_session_id :: string
  chat_reply :: fetch_result
  iso_now :: string

text \<open>\<^verbatim>\<open>getHeaders()\<close>: refresh the session if needed, then read the token.\<close>

definition getHeaders ::
  "platform \<Rightarrow> aws_config \<Rightarrow> chat_env \<Rightarrow> storage \<Rightarrow> (string \<times> string) list \<times> storage \<times> net_call list" where
  "getHeaders p cfg env ls =
     (case refreshSession p cfg (env_read_at env) (env_checked_at env) (env_renewed_at env) (refresh_reply env) ls of
        (refreshed, ls1, calls) \<Rightarrow>
          (case getStoredSession p (env_token_read_at env) ls1 of
             (session, ls2) \<Rightarrow>
               (let token = js_or (read_optional session ''token'') JNull in
                (((''Content-Type'', ''application/json'') #
                  (if truthy token then [(''Authorization'', ''Bearer '' @ ToString p token)] else []) @
                  (if apiKey cfg \<noteq> [] then [(''x-api-key'', apiKey cfg)] else [])),
                 ls2, calls))))"

text \<open>\<^verbatim>\<open>getSessionId()\<close>: the id kept in \<^verbatim>\<open>sessionStorage\<close>, or a new one that is then kept.\<close>

definition getSessionId :: "string \<Rightarrow> storage \<Rightarrow> string \<times> storage" where
  "getSessionId fresh ss =
     (case ss sessionStorageKey of
        None \<Rightarrow> (fresh, ss(sessionStorageKey \<mapsto> fresh))
      | Some sessionId \<Rightarrow>
          if sessionId = [] then (fresh, ss(sessionStorageKey \<mapsto> fresh)) else (sessionId, ss))"

text \<open>A string or \<^verbatim>\<open>null\<close>, as a value.\<close>

definition optional_json :: "string option \<Rightarrow> jsval" where
  "optional_json x = (case x of None \<Rightarrow> JNull | Some s \<Rightarrow> JStr s)"

definition messages_json :: "chat_message list \<Rightarrow> jsval" where
  "messages_json ms =
     JArr (map (\<lambda>m. JObj [(''role'', JStr (msg_role m)), (''content'', JStr (msg_content m))]) ms)"

text \<open>\<^verbatim>\<open>request.messages[request.messages.length - 1]?.content || ""\<close>\<close>

definition user_query :: "chat_message list \<Rightarrow> string" where
  "user_query ms = (if ms = [] then [] else msg_content (last ms))"

text \<open>
  What \<^verbatim>\<open>sendChatMessage\<close> does with the reply, from \<^verbatim>\<open>response.json()\<close> on: the thrown
  error or the normalized response.
\<close>

definition chat_result ::
  "platform \<Rightarrow> chat_env \<Rightarrow> ChatRequest \<Rightarrow> string \<Rightarrow> http_response \<Rightarrow> js_error + ChatResponse" where
  "chat_result p env request sessionId response =
     (case response_json p response of
        Inl e \<Rightarrow> Inl e
      | Inr data \<Rightarrow>
          if \<not> response_ok response then
            (if http_status response = 429
             then Inl (Error ''Rate limit exceeded. Please try again later.'')
             else if http_status response = 401 \<or> http_status response = 403
             then Inl (Error ''Authentication required. Please log in.'')
             else (case client_parseLambdaResponse p data of
                     Inl e \<Rightarrow> Inl e
                   | Inr parsed \<Rightarrow>
                       (case read_member parsed ''error'' of
                          Inl e \<Rightarrow> Inl e
                        | Inr perror \<Rightarrow>
                            Inl (Error (ToString p
                              (js_or perror (js_or (property parsed ''message'')
                                 (JStr (''API error: '' @ ToString p (JNum (http_status response)))))))))))
          else
            (case client_parseLambdaResponse p data of
               Inl e \<Rightarrow> Inl e
             | Inr parsed \<Rightarrow>
                 if isLambdaProxyResponse data \<and> js_ge p (property data ''statusCode'') 400
                 then (case read_member parsed ''error'' of
                         Inl e \<Rightarrow> Inl e
                       | Inr perror \<Rightarrow>
                           Inl (Error (ToString p
                             (js_or perror
                                (JStr (''Lambda error: '' @ ToString p (property data ''statusCode'')))))))
                 else (case read_member parsed ''content'' of
                         Inl e \<Rightarrow> Inl e
                       | Inr pcontent \<Rightarrow>
                           Inr \<lparr>res_content =
                                  js_or pcontent (js_or (property parsed ''response'')
                                    (js_or (property parsed ''message'') (JStr []))),
                                res_analytics =
                                  js_or (property parsed ''analytics'')
                                    (JObj [(''session_id'', JStr sessionId),
                                           (''execution_time_ms'', JNum 0),
                                           (''invocation_count'', JNum 1),
                                           (''input_tokens'', JNum 0),
                                           (''output_tokens'', JNum 0),
                                           (''total_tokens'', JNum 0),
                                           (''model'', JStr ''bedrock''),
                                           (''department'', JStr (req_department request)),
                                           (''timestamp'', JStr (iso_now env)),
                                           (''locale'',
                                              (case truthy_string (req_locale request) of
                                                 None \<Rightarrow> JStr ''en_US''
                                               | Some l \<Rightarrow> JStr l)),
                                           (''rag_mode'',
                                              optional_json (truthy_string (req_rag_mode request)))]),
                                res_sources = js_or (property parsed ''sources'') (JArr [])\<rparr>)))"

text \<open>
  The body of the chat request, \<^verbatim>\<open>{...request, session_id: sessionId, user_query: ...}\<close>:
  the fields of the request in their order, a \<^verbatim>\<open>session_id\<close> of the request keeping its
  place with the new value and one that was left out coming after them, then
  \<^verbatim>\<open>user_query\<close>.
\<close>

definition chat_payload :: "ChatRequest \<Rightarrow> string \<Rightarrow> jsval" where
  "chat_payload request sessionId =
     JObj ([(''messages'', messages_json (req_messages request)),
            (''department'', JStr (req_department request))]
           @ (if req_session_id request = Omitted then [] else [(''session_id'', JStr sessionId)])
           @ optional_entry ''locale'' (req_locale request)
           @ optional_entry ''rag_mode'' (req_rag_mode request)
           @ (if req_session_id request = Omitted then [(''session_id'', JStr sessionId)] else [])
           @ [(''user_query'', JStr (user_query (req_messages request)))])"

text \<open>
  \<^verbatim>\<open>sendChatMessage(request)\<close>, on the local storage \<open>ls\<close> and the session storage \<open>ss\<close>:
  the result, both storages afterwards, and the requests made. The session id is
  \<^verbatim>\<open>request.session_id || getSessionId()\<close>.
\<close>

definition sendChatMessage ::
  "platform \<Rightarrow> aws_config \<Rightarrow> chat_env \<Rightarrow> ChatRequest \<Rightarrow> storage \<Rightarrow> storage
     \<Rightarrow> (js_error + ChatResponse) \<times> storage \<times> storage \<times> net_call list" where
  "sendChatMessage p cfg env request ls ss =
     (case getHeaders p cfg env ls of
        (headers, ls1, calls) \<Rightarrow>
          (case (case truthy_string (req_session_id request) of
                   None \<Rightarrow> getSessionId (fresh_session_id env) ss
                 | Some given \<Rightarrow> (given, ss)) of
             (sessionId, ss1) \<Rightarrow>
               (let sent = calls @ [Fetch (chatEndpoint cfg) headers (chat_payload request sessionId)]
                in case chat_reply env of
                     NetworkFailure \<Rightarrow> (Inl FetchFailed, ls1, ss1, sent)
                   | Response response \<Rightarrow>
                       (chat_result p env request sessionId response, ls1, ss1, sent))))"

section \<open>Edge functions\<close>

subsection \<open>Lookup in an object literal\<close>

text \<open>
  \<^verbatim>\<open>departmentPrompts[department]\<close> and \<^verbatim>\<open>departmentSources[department]\<close> read a property of
  an object literal, so a key that is not one of the literal's own is looked up in
  \<^verbatim>\<open>Object.prototype\<close>: for the names below the result is a builtin function, not
  \<^verbatim>\<open>undefined\<close>. (The edge functions run on Deno, where \<^verbatim>\<open>Object.prototype\<close> has no
  \<^verbatim>\<open>__proto__\<close> accessor.)
\<close>

definition Object_prototype_names :: "string list" where
  "Object_prototype_names =
     [''constructor'', ''hasOwnProperty'', ''isPrototypeOf'', ''propertyIsEnumerable'',
      ''toLocaleString'', ''toString'', ''valueOf'', ''__defineGetter__'', ''__defineSetter__'',
      ''__lookupGetter__'', ''__lookupSetter__'']"

datatype 'a lookup = Own 'a | Inherited string | Absent

definition lookup_literal :: "(string \<times> 'a) list \<Rightarrow> string \<Rightarrow> 'a lookup" where
  "lookup_literal literal key =
     (case map_of literal key of
        Some v \<Rightarrow> Own v
      | None \<Rightarrow> if key \<in> set Object_prototype_names then Inherited key else Absent)"

subsection \<open>System prompts and canned sources\<close>

definition departmentPrompts :: "(string \<times> string) list" where
  "departmentPrompts =
     [(''HR'', ''You are an HR policy assistant. Help employees understand HR policies, benefits, leave procedures, and workplace guidelines. Be professional and cite policy documents when relevant.''),
      (''Finance'', ''You are a Finance department assistant. Help with expense reports, budget questions, financial procedures, and compliance guidelines. Be precise and reference financial policies.''),
      (''IT'', ''You are an IT support assistant. Help with software requests, security policies, technical procedures, and system access. Be clear and reference IT documentation.''),
      (''Operations'', ''You are an Operations assistant. Help with procurement, vendor management, supply chain questions, and operational procedures. Be efficient and reference operational guidelines.'')]"

definition generic_prompt :: string where
  "generic_prompt = ''You are a helpful enterprise assistant. Answer questions clearly and professionally.''"

text \<open>
  \<^verbatim>\<open>const systemPrompt = departmentPrompts[department] || "You are a helpful ..."\<close>: a
  text, or the builtin function the lookup found (which is truthy).
\<close>

datatype prompt = Text string | BuiltinFunction string

definition systemPrompt :: "string \<Rightarrow> prompt" where
  "systemPrompt department =
     (case lookup_literal departmentPrompts department of
        Own text \<Rightarrow> if text \<noteq> [] then Text text else Text generic_prompt
      | Inherited name \<Rightarrow> BuiltinFunction name
      | Absent \<Rightarrow> Text generic_prompt)"

text \<open>The prompt as a string, as \<^verbatim>\<open>inputText + systemPrompt\<close> converts it.\<close>

definition prompt_text :: "platform \<Rightarrow> prompt \<Rightarrow> string" where
  "prompt_text p sp = (case sp of Text text \<Rightarrow> text | BuiltinFunction name \<Rightarrow> function_source p name)"

record source =
  src_title :: string
  src_type :: string
  src_reference :: string

definition departmentSources :: "(string \<times> source list) list" where
  "departmentSources =
     [(''HR'',
        [\<lparr>src_title = ''Employee Handbook v3.2'', src_type = ''document'', src_reference = ''HR-DOC-001''\<rparr>,
         \<lparr>src_title = ''HR Policy Guidelines'', src_type = ''policy'', src_reference = ''HR-POL-002''\<rparr>]),
      (''Finance'',
        [\<lparr>src_title = ''Financial Procedures Manual'', src_type = ''document'', src_reference = ''FIN-DOC-001''\<rparr>,
         \<lparr>src_title = ''Expense Policy 2024'', src_type = ''policy'', src_reference = ''FIN-POL-001''\<rparr>]),
      (''IT'',
        [\<lparr>src_title = ''IT Security Handbook'', src_type = ''document'', src_reference = ''IT-DOC-001''\<rparr>,
         \<lparr>src_title = ''Software Request Portal'', src_type = ''link'', src_reference = ''IT-SYS-001''\<rparr>]),
      (''Operations'',
        [\<lparr>src_title = ''Operations Manual'', src_type = ''document'', src_reference = ''OPS-DOC-001''\<rparr>,
         \<lparr>src_title = ''Vendor Guidelines'', src_type = ''policy'', src_reference = ''OPS-POL-001''\<rparr>])]"

text \<open>
  The \<^verbatim>\<open>sources\<close> of a response: a list of canned sources, the builtin function the lookup
  found, or (in the proxy variant) what the upstream supplied.
\<close>

datatype sources = SourceList "source list" | BuiltinValue string | UpstreamSources jsval

text \<open>\<^verbatim>\<open>return departmentSources[department] || [];\<close> (an array is always truthy)\<close>

definition generateSources :: "string \<Rightarrow> sources" where
  "generateSources department =
     (case lookup_literal departmentSources department of
        Own list \<Rightarrow> SourceList list
      | Inherited name \<Rightarrow> BuiltinValue name
      | Absent \<Rightarrow> SourceList [])"

text \<open>The proxy variant has the same function under the name \<^verbatim>\<open>generateDefaultSources\<close>.\<close>

definition generateDefaultSources :: "string \<Rightarrow> sources" where
  "generateDefaultSources department =
     (case lookup_literal departmentSources department of
        Own list \<Rightarrow> SourceList list
      | Inherited name \<Rightarrow> BuiltinValue name
      | Absent \<Rightarrow> SourceList [])"

subsection \<open>Requests, environment and responses\<close>

text \<open>
  A request to an edge function: its method and the JSON of its body, typed as the wire
  contract has it (\<open>None\<close>: \<^verbatim>\<open>req.json()\<close> rejects).
\<close>

record edge_request =
  req_method :: string
  req_json :: "ChatRequest option"

text \<open>
  What a handler reads from outside: the environment variables, the session id
  \<^verbatim>\<open>generateSessionId()\<close> makes, the elapsed milliseconds and the timestamp (in the \<^verbatim>\<open>try\<close>
  block and in the \<^verbatim>\<open>catch\<close> block), and what the upstream \<^verbatim>\<open>fetch\<close> returns.
\<close>

record edge_env =
  LOVABLE_API_KEY :: "string option"
  AWS_LAMBDA_ENDPOINT :: "string option"
  AWS_LAMBDA_API_KEY :: "string option"
  generated_session_id :: string
  elapsed_ms :: int
  timestamp_now :: string
  caught_session_id :: string
  caught_elapsed_ms :: int
  caught_timestamp :: string
  upstream :: fetch_result

text \<open>
  The analytics record of a response, before \<^verbatim>\<open>JSON.stringify\<close>. The numeric fields are
  values: in the proxy variant they are whatever the upstream sent.
\<close>

record edge_analytics =
  an_session_id :: string
  an_execution_time_ms :: jsval
  an_invocation_count :: jsval
  an_input_tokens :: jsval
  an_output_tokens :: jsval
  an_total_tokens :: jsval
  an_model :: jsval
  an_department :: string
  an_timestamp :: string
  an_locale :: "string option"
  an_rag_mode :: "string option"
  an_error :: bool

datatype edge_body =
    EmptyBody
  | ChatBody jsval edge_analytics sources
  | ErrorBody string "edge_analytics option"

record edge_response =
  out_status :: int
  out_body :: edge_body

definition rate_limited :: edge_response where
  "rate_limited =
     \<lparr>out_status = 429, out_body = ErrorBody ''Rate limits exceeded, please try again later.'' None\<rparr>"

definition payment_required :: edge_response where
  "payment_required =
     \<lparr>out_status = 402, out_body = ErrorBody ''Payment required, please add funds.'' None\<rparr>"

definition access_denied :: edge_response where
  "access_denied =
     \<lparr>out_status = 403, out_body = ErrorBody ''Access denied. Check Lambda API key configuration.'' None\<rparr>"

definition error_message :: "platform \<Rightarrow> js_error \<Rightarrow> string" where
  "error_message p e = (case e of Error message \<Rightarrow> message | _ \<Rightarrow> runtime_message p e)"

text \<open>The response of the \<^verbatim>\<open>catch\<close> block, for the model name of the variant.\<close>

definition caught :: "platform \<Rightarrow> edge_env \<Rightarrow> string \<Rightarrow> js_error \<Rightarrow> edge_response" where
  "caught p env model_name e =
     \<lparr>out_status = 500,
      out_body = ErrorBody (error_message p e)
        (Some \<lparr>an_session_id = caught_session_id env,
               an_execution_time_ms = JNum (caught_elapsed_ms env),
               an_invocation_count = JNum 0,
               an_input_tokens = JNum 0,
               an_output_tokens = JNum 0,
               an_total_tokens = JNum 0,
               an_model = JStr model_name,
               an_department = ''Unknown'',
               an_timestamp = caught_timestamp env,
               an_locale = Some ''en_US'',
               an_rag_mode = None,
               an_error = True\<rparr>)\<rparr>"

text \<open>\<^verbatim>\<open>session_id || generateSessionId()\<close> and \<^verbatim>\<open>department || "General"\<close>\<close>

definition currentSessionId :: "edge_env \<Rightarrow> ChatRequest \<Rightarrow> string" where
  "currentSessionId env request =
     (case truthy_string (req_session_id request) of
        None \<Rightarrow> generated_session_id env
      | Some given \<Rightarrow> given)"

definition department_or_General :: "ChatRequest \<Rightarrow> string" where
  "department_or_General request =
     (if req_department request = [] then ''General'' else req_department request)"

text \<open>
  The destructuring defaults \<^verbatim>\<open>locale = "en_US"\<close> and \<^verbatim>\<open>rag_mode = null\<close> apply to a field
  that is left out only: a \<^verbatim>\<open>null\<close> stays \<^verbatim>\<open>null\<close> (\<open>None\<close>).
\<close>

definition locale_or_default :: "ChatRequest \<Rightarrow> string option" where
  "locale_or_default request =
     (case req_locale request of Omitted \<Rightarrow> Some ''en_US'' | IsNull \<Rightarrow> None | Given l \<Rightarrow> Some l)"

definition rag_mode_or_null :: "ChatRequest \<Rightarrow> string option" where
  "rag_mode_or_null request =
     (case req_rag_mode request of Omitted \<Rightarrow> None | IsNull \<Rightarrow> None | Given m \<Rightarrow> Some m)"

subsection \<open>The AI-gateway and the Lambda-with-key variant\<close>

text \<open>\<^verbatim>\<open>messages.map((m) => m.content).join(" ")\<close>\<close>

fun join_space :: "string list \<Rightarrow> string" where
  "join_space [] = []"
| "join_space [x] = x"
| "join_space (x # y # ys) = x @ '' '' @ join_space (y # ys)"

definition inputTokens :: "platform \<Rightarrow> ChatRequest \<Rightarrow> nat" where
  "inputTokens p request =
     estimateTokens (join_space (map msg_content (req_messages request))
                     @ prompt_text p (systemPrompt (req_department request)))"

text \<open>
  The messages sent upstream: the system prompt first. \<^verbatim>\<open>JSON.stringify\<close> leaves a
  \<^verbatim>\<open>content\<close> that is a function out.
\<close>

definition upstream_messages :: "ChatRequest \<Rightarrow> jsval" where
  "upstream_messages request =
     JArr ((case systemPrompt (req_department request) of
              Text text \<Rightarrow> JObj [(''role'', JStr ''system''), (''content'', JStr text)]
            | BuiltinFunction name \<Rightarrow> JObj [(''role'', JStr ''system'')])
           # map (\<lambda>m. JObj [(''role'', JStr (msg_role m)), (''content'', JStr (msg_content m))])
               (req_messages request))"

text \<open>\<^verbatim>\<open>choices?.[0]\<close>\<close>

fun opt_index0 :: "jsval \<Rightarrow> jsval" where
  "opt_index0 (JArr xs) = (case xs of [] \<Rightarrow> JUndefined | x # rest \<Rightarrow> x)"
| "opt_index0 (JStr s) = (case s of [] \<Rightarrow> JUndefined | c # rest \<Rightarrow> JStr [c])"
| "opt_index0 (JObj kvs) = property (JObj kvs) ''0''"
| "opt_index0 _ = JUndefined"

text \<open>\<^verbatim>\<open>data.choices?.[0]?.message?.content || ""\<close>\<close>

definition assistantContent :: "jsval \<Rightarrow> js_error + jsval" where
  "assistantContent data =
     (case read_member data ''choices'' of
        Inl e \<Rightarrow> Inl e
      | Inr choices \<Rightarrow>
          Inr (js_or (read_optional (read_optional (opt_index0 choices) ''message'') ''content'') (JStr [])))"

text \<open>
  \<^verbatim>\<open>estimateTokens\<close> on the untyped assistant content: a string or an array has a length;
  an object has the \<^verbatim>\<open>length\<close> it carries, if any; a number or boolean has none, and
  \<^verbatim>\<open>Math.ceil(undefined / 4)\<close> is NaN.
\<close>

definition estimateTokens_of :: "platform \<Rightarrow> jsval \<Rightarrow> js_error + jsval" where
  "estimateTokens_of p v =
     (case v of
        JStr s \<Rightarrow> Inr (JNum (int (estimateTokens s)))
      | JArr xs \<Rightarrow> Inr (JNum (int (estimateTokens xs)))
      | JObj kvs \<Rightarrow>
          Inr (of_number (map_option (\<lambda>n. \<lceil>real_of_int n / 4\<rceil>) (ToNumber p (property v ''length''))))
      | JUndefined \<Rightarrow> Inl TypeError
      | JNull \<Rightarrow> Inl TypeError
      | _ \<Rightarrow> Inr JNaN)"

text \<open>
  The success path the two variants share, from \<^verbatim>\<open>response.json()\<close> to the response:
  \<^verbatim>\<open>totalTokens = inputTokens + outputTokens\<close>.
\<close>

definition estimated_success ::
  "platform \<Rightarrow> edge_env \<Rightarrow> ChatRequest \<Rightarrow> http_response \<Rightarrow> js_error + edge_response" where
  "estimated_success p env request response =
     (case response_json p response of
        Inl e \<Rightarrow> Inl e
      | Inr data \<Rightarrow>
          (case assistantContent data of
             Inl e \<Rightarrow> Inl e
           | Inr content \<Rightarrow>
               (case estimateTokens_of p content of
                  Inl e \<Rightarrow> Inl e
                | Inr outputTokens \<Rightarrow>
                    Inr \<lparr>out_status = 200,
                         out_body = ChatBody content
                           \<lparr>an_session_id = currentSessionId env request,
                            an_execution_time_ms = JNum (elapsed_ms env),
                            an_invocation_count = JNum (0 + 1),
                            an_input_tokens = JNum (int (inputTokens p request)),
                            an_output_tokens = outputTokens,
                            an_total_tokens =
                              js_add_numbers p (JNum (int (inputTokens p request))) outputTokens,
                            an_model = JStr ''google/gemini-3-flash-preview'',
                            an_department = department_or_General request,
                            an_timestamp = timestamp_now env,
                            an_locale = locale_or_default request,
                            an_rag_mode = rag_mode_or_null request,
                            an_error = False\<rparr>
                           (generateSources (req_department request))\<rparr>)))"

text \<open>The \<^verbatim>\<open>try\<close> block of the AI-gateway variant, with the upstream requests made.\<close>

definition gateway_try ::
  "platform \<Rightarrow> edge_env \<Rightarrow> edge_request \<Rightarrow> (js_error + edge_response) \<times> net_call list" where
  "gateway_try p env req =
     (case req_json req of
        None \<Rightarrow> (Inl SyntaxError, [])
      | Some request \<Rightarrow>
          if LOVABLE_API_KEY env = None \<or> LOVABLE_API_KEY env = Some []
          then (Inl (Error ''LOVABLE_API_KEY is not configured''), [])
          else
            (let calls =
               [Fetch ''https://ai.gateway.lovable.dev/v1/chat/completions''
                  [(''Authorization'', ''Bearer '' @ the (LOVABLE_API_KEY env)),
                   (''Content-Type'', ''application/json'')]
                  (JObj [(''model'', JStr ''google/gemini-3-flash-preview''),
                         (''messages'', upstream_messages request),
                         (''stream'', JBool False)])]
             in case upstream env of
                  NetworkFailure \<Rightarrow> (Inl FetchFailed, calls)
                | Response response \<Rightarrow>
                    if \<not> response_ok response then
                      (if http_status response = 429 then (Inr rate_limited, calls)
                       else if http_status response = 402 then (Inr payment_required, calls)
                       else (Inl (Error (''AI gateway error: ''
                                         @ ToString p (JNum (http_status response)))), calls))
                    else (estimated_success p env request response, calls)))"

definition serve_gateway :: "platform \<Rightarrow> edge_env \<Rightarrow> edge_request \<Rightarrow> edge_response \<times> net_call list" where
  "serve_gateway p env req =
     (if req_method req = ''OPTIONS'' then (\<lparr>out_status = 200, out_body = EmptyBody\<rparr>, [])
      else (case gateway_try p env req of
              (Inr response, calls) \<Rightarrow> (response, calls)
            | (Inl e, calls) \<Rightarrow> (caught p env ''google/gemini-3-flash-preview'' e, calls)))"

text \<open>
  The Lambda-with-key variant: endpoint and key have defaults, the key goes into
  \<^verbatim>\<open>x-api-key\<close>, and 403 has a response of its own.
\<close>

definition lambda_endpoint :: "edge_env \<Rightarrow> string \<Rightarrow> string" where
  "lambda_endpoint env placeholder =
     (case AWS_LAMBDA_ENDPOINT env of
        None \<Rightarrow> placeholder
      | Some url \<Rightarrow> if url = [] then placeholder else url)"

definition lambda_try ::
  "platform \<Rightarrow> edge_env \<Rightarrow> edge_request \<Rightarrow> (js_error + edge_response) \<times> net_call list" where
  "lambda_try p env req =
     (case req_json req of
        None \<Rightarrow> (Inl SyntaxError, [])
      | Some request \<Rightarrow>
          (let calls =
             [Fetch (lambda_endpoint env
                       ''https://your-lambda-endpoint.execute-api.us-east-1.amazonaws.com/prod/chat'')
                [(''x-api-key'',
                    (case AWS_LAMBDA_API_KEY env of
                       None \<Rightarrow> ''your-api-key-here''
                     | Some key \<Rightarrow> if key = [] then ''your-api-key-here'' else key)),
                 (''Content-Type'', ''application/json'')]
                (JObj [(''messages'', upstream_messages request),
                       (''session_id'', JStr (currentSessionId env request)),
                       (''department'', JStr (req_department request)),
                       (''locale'', optional_json (locale_or_default request)),
                       (''rag_mode'', optional_json (rag_mode_or_null request))])]
           in case upstream env of
                NetworkFailure \<Rightarrow> (Inl FetchFailed, calls)
              | Response response \<Rightarrow>
                  if \<not> response_ok response then
                    (if http_status response = 429 then (Inr rate_limited, calls)
                     else if http_status response = 403 then (Inr access_denied, calls)
                     else (Inl (Error (''AWS Lambda error: ''
                                       @ ToString p (JNum (http_status response))
                                       @ '' - '' @ http_body response)), calls))
                  else (estimated_success p env request response, calls)))"

definition serve_lambda :: "platform \<Rightarrow> edge_env \<Rightarrow> edge_request \<Rightarrow> edge_response \<times> net_call list" where
  "serve_lambda p env req =
     (if req_method req = ''OPTIONS'' then (\<lparr>out_status = 200, out_body = EmptyBody\<rparr>, [])
      else (case lambda_try p env req of
              (Inr response, calls) \<Rightarrow> (response, calls)
            | (Inl e, calls) \<Rightarrow> (caught p env ''google/gemini-3-flash-preview'' e, calls)))"

subsection \<open>The Lambda-proxy variant\<close>

text \<open>
  \<^verbatim>\<open>'statusCode' in lambdaResponse && 'body' in lambdaResponse\<close> throws on anything that is
  not an object. An envelope gives its own \<^verbatim>\<open>statusCode\<close> and its body, parsed when it is a
  string (\<^verbatim>\<open>{ response: body }\<close> when it does not parse); any other object is the body
  itself, with the HTTP status.
\<close>

definition proxy_unwrap :: "platform \<Rightarrow> http_response \<Rightarrow> jsval \<Rightarrow> js_error + jsval \<times> jsval" where
  "proxy_unwrap p response lambdaResponse =
     (case lambdaResponse of
        JObj kvs \<Rightarrow>
          if map_of kvs ''statusCode'' \<noteq> None \<and> map_of kvs ''body'' \<noteq> None
          then Inr (property lambdaResponse ''statusCode'',
                    (case property lambdaResponse ''body'' of
                       JStr b \<Rightarrow>
                         (case JSON_parse p b of
                            Some v \<Rightarrow> v
                          | None \<Rightarrow> JObj [(''response'', JStr b)])
                     | other \<Rightarrow> other))
          else Inr (JNum (http_status response), lambdaResponse)
      | JArr xs \<Rightarrow> Inr (JNum (http_status response), lambdaResponse)
      | _ \<Rightarrow> Inl TypeError)"

text \<open>
  From the response text to the response of the edge function. The analytics fields are
  taken one by one from the upstream's \<^verbatim>\<open>analytics\<close>, each with its own default.
\<close>

definition proxy_reply ::
  "platform \<Rightarrow> edge_env \<Rightarrow> ChatRequest \<Rightarrow> http_response \<Rightarrow> js_error + edge_response" where
  "proxy_reply p env request response =
     (case JSON_parse p (http_body response) of
        None \<Rightarrow> Inl (Error ''Invalid Lambda response format'')
      | Some lambdaResponse \<Rightarrow>
          (case proxy_unwrap p response lambdaResponse of
             Inl e \<Rightarrow> Inl e
           | Inr (statusCode, bodyContent) \<Rightarrow>
               if js_ge p statusCode 400 \<or> \<not> response_ok response then
                 (if statusCode = JNum 429 then Inr rate_limited
                  else if statusCode = JNum 403 \<or> statusCode = JNum 401 then Inr access_denied
                  else (case read_member bodyContent ''error'' of
                          Inl e \<Rightarrow> Inl e
                        | Inr berror \<Rightarrow>
                            Inl (Error (ToString p
                              (js_or berror (JStr (''Lambda error: '' @ ToString p statusCode)))))))
               else
                 (case read_member bodyContent ''response'' of
                    Inl e \<Rightarrow> Inl e
                  | Inr bresponse \<Rightarrow>
                      (let analytics = property bodyContent ''analytics'' in
                       Inr \<lparr>out_status = 200,
                            out_body = ChatBody
                              (js_or bresponse (js_or (property bodyContent ''content'')
                                 (js_or (property bodyContent ''message'') (JStr []))))
                              \<lparr>an_session_id = currentSessionId env request,
                               an_execution_time_ms =
                                 js_or (read_optional analytics ''execution_time_ms'') (JNum (elapsed_ms env)),
                               an_invocation_count =
                                 js_or (read_optional analytics ''invocation_count'') (JNum 1),
                               an_input_tokens = js_or (read_optional analytics ''input_tokens'') (JNum 0),
                               an_output_tokens = js_or (read_optional analytics ''output_tokens'') (JNum 0),
                               an_total_tokens = js_or (read_optional analytics ''total_tokens'') (JNum 0),
                               an_model = js_or (read_optional analytics ''model'') (JStr ''lambda-llm''),
                               an_department = department_or_General request,
                               an_timestamp = timestamp_now env,
                               an_locale = locale_or_default request,
                               an_rag_mode = rag_mode_or_null request,
                               an_error = False\<rparr>
                              (if truthy (property bodyContent ''sources'')
                               then UpstreamSources (property bodyContent ''sources'')
                               else generateDefaultSources (req_department request))\<rparr>))))"

definition proxy_try ::
  "platform \<Rightarrow> edge_env \<Rightarrow> edge_request \<Rightarrow> (js_error + edge_response) \<times> net_call list" where
  "proxy_try p env req =
     (case req_json req of
        None \<Rightarrow> (Inl SyntaxError, [])
      | Some request \<Rightarrow>
          (let calls =
             [Fetch (lambda_endpoint env
                       ''https://your-lambda-endpoint.execute-api.region.amazonaws.com/stage/chat'')
                ((''Content-Type'', ''application/json'') #
                 (case AWS_LAMBDA_API_KEY env of
                    None \<Rightarrow> []
                  | Some key \<Rightarrow> if key = [] then [] else [(''x-api-key'', key)]))
                (JObj [(''messages'', messages_json (req_messages request)),
                       (''session_id'', JStr (currentSessionId env request)),
                       (''department'', JStr (req_department request)),
                       (''locale'', optional_json (locale_or_default request)),
                       (''rag_mode'', optional_json (rag_mode_or_null request)),
                       (''user_query'', JStr (user_query (req_messages request)))])]
           in case upstream env of
                NetworkFailure \<Rightarrow> (Inl FetchFailed, calls)
              | Response response \<Rightarrow> (proxy_reply p env request response, calls)))"

definition serve_proxy :: "platform \<Rightarrow> edge_env \<Rightarrow> edge_request \<Rightarrow> edge_response \<times> net_call list" where
  "serve_proxy p env req =
     (if req_method req = ''OPTIONS'' then (\<lparr>out_status = 200, out_body = EmptyBody\<rparr>, [])
      else (case proxy_try p env req of
              (Inr response, calls) \<Rightarrow> (response, calls)
            | (Inl e, calls) \<Rightarrow> (caught p env ''lambda-llm'' e, calls)))"

text \<open>The three provider variants, by what they serve.\<close>

datatype variant = Gateway | LambdaKey | LambdaProxy

fun serve :: "variant \<Rightarrow> platform \<Rightarrow> edge_env \<Rightarrow> edge_request \<Rightarrow> edge_response \<times> net_call list" where
  "serve Gateway = serve_gateway"
| "serve LambdaKey = serve_lambda"
| "serve LambdaProxy = serve_proxy"

text \<open>
  The token fields of the analytics record of a success response, in the order input,
  output, total; \<open>None\<close> for every other response.
\<close>

definition success_tokens :: "edge_response \<Rightarrow> (jsval \<times> jsval \<times> jsval) option" where
  "success_tokens response =
     (case out_body response of
        ChatBody content a srcs \<Rightarrow> Some (an_input_tokens a, an_output_tokens a, an_total_tokens a)
      | _ \<Rightarrow> None)"

text \<open>
  The body the proxy variant decodes from the upstream's reply: \<open>None\<close> when the reply has
  none (no response, not JSON, not an object).
\<close>

definition proxy_body :: "platform \<Rightarrow> edge_env \<Rightarrow> jsval option" where
  "proxy_body p env =
     (case upstream env of
        NetworkFailure \<Rightarrow> None
      | Response response \<Rightarrow>
          (case JSON_parse p (http_body response) of
             None \<Rightarrow> None
           | Some lambdaResponse \<Rightarrow>
               (case proxy_unwrap p response lambdaResponse of
                  Inl e \<Rightarrow> None
                | Inr (statusCode, bodyContent) \<Rightarrow> Some bodyContent)))"

section \<open>Analytics aggregation (useAnalytics.ts)\<close>




text \<open>
  \<^verbatim>\<open>dailyMap\<close> is an object used as a dictionary of \<^verbatim>\<open>{messages, tokens}\<close> under the dates,
  here a list of entries in insertion order. Its keys are ISO calendar dates such as
  \<^verbatim>\<open>2024-03-05\<close>: no such key is the name of a member of \<^verbatim>\<open>Object.prototype\<close> or an array
  index, so \<^verbatim>\<open>dailyMap[date]\<close> finds own entries only and \<^verbatim>\<open>Object.entries\<close> lists them in
  insertion order. \<open>iso_day\<close> is the shape of such a key.
\<close>

definition iso_day :: "string \<Rightarrow> bool" where
  "iso_day d = (list_all (\<lambda>c. c \<in> set ''0123456789+-'') d \<and> CHR ''-'' \<in> set d)"







section \<open>A platform and documents for the worked examples\<close>

text \<open>
  Decimal rendering of integers, as \<^verbatim>\<open>String(n)\<close> gives it for the numbers of the examples.
\<close>

function show_nat :: "nat \<Rightarrow> string" where
  "show_nat n =
     (if n < 10 then [''0123456789'' ! n]
      else show_nat (n div 10) @ [''0123456789'' ! (n mod 10)])"
  by pat_completeness auto
termination
  by (relation "measure id") auto

declare show_nat.simps [simp del]

definition show_int :: "int \<Rightarrow> string" where
  "show_int i = (if i < 0 then CHR ''-'' # show_nat (nat (- i)) else show_nat (nat i))"

text \<open>
  The JSON documents of the examples with the values they parse to: sessions as
  \<^verbatim>\<open>storeSession\<close> writes them, replies of the auth endpoint, and replies of the chat
  endpoint in direct and in proxy-envelope form.
\<close>

definition example_user :: jsval where
  "example_user = JObj [(''id'', JStr ''u1''), (''email'', JStr ''ann@example.com'')]"

definition session_without_refresh :: string where
  \<open>session_without_refresh =
     ''{"token":"t1","expiresAt":9000000,"user":{"id":"u1","email":"ann@example.com"}}''\<close>

definition session_with_refresh :: string where
  \<open>session_with_refresh =
     ''{"token":"t1","refreshToken":"r1","expiresAt":9000000,"user":{"id":"u1","email":"ann@example.com"}}''\<close>

definition reply_expires_zero :: string where
  \<open>reply_expires_zero =
     ''{"token":"t2","expiresIn":0,"user":{"id":"u1","email":"ann@example.com"}}''\<close>

definition reply_expires_60 :: string where
  \<open>reply_expires_60 =
     ''{"token":"t2","expiresIn":60,"user":{"id":"u1","email":"ann@example.com"}}''\<close>

definition session_from_zero :: string where
  \<open>session_from_zero =
     ''{"token":"t2","expiresAt":3601000,"user":{"id":"u1","email":"ann@example.com"}}''\<close>

definition session_from_60 :: string where
  \<open>session_from_60 =
     ''{"token":"t2","expiresAt":61000,"user":{"id":"u1","email":"ann@example.com"}}''\<close>

text \<open>
  A reply of the chat endpoint that denies access, as a direct body and wrapped in a proxy
  envelope (whose body is the direct body as a JSON string, quotes escaped).
\<close>

definition direct_denied :: string where
  \<open>direct_denied = ''{"error":"denied"}''\<close>

definition envelope_denied :: string where
  \<open>envelope_denied =
     ''{"statusCode":403,"body":"{'' @ [CHR 0x5C, CHR 0x22] @ ''error'' @ [CHR 0x5C, CHR 0x22]
       @ '':'' @ [CHR 0x5C, CHR 0x22] @ ''denied'' @ [CHR 0x5C, CHR 0x22] @ ''}"}''\<close>

text \<open>An envelope whose body is the empty object: a status and no \<^verbatim>\<open>error\<close>.\<close>

definition envelope_no_error :: string where
  \<open>envelope_no_error = ''{"statusCode":403,"body":"{}"}''\<close>

definition chat_documents :: "(string \<times> jsval) list" where
  "chat_documents =
     [(direct_denied, JObj [(''error'', JStr ''denied'')]),
      (envelope_denied, JObj [(''statusCode'', JNum 403), (''body'', JStr direct_denied)]),
      (''{}'', JObj []),
      (envelope_no_error, JObj [(''statusCode'', JNum 403), (''body'', JStr ''{}'')])]"

text \<open>
  Replies of the upstream providers: an OpenAI-style completion, a flat Lambda reply with
  and without analytics (the analytics giving input and output tokens but no total), and
  a rate-limit body.
\<close>

definition completion_reply :: string where
  \<open>completion_reply = ''{"choices":[{"message":{"content":"Hello there"}}]}''\<close>

definition lambda_reply_plain :: string where
  \<open>lambda_reply_plain = ''{"response":"Hello there"}''\<close>

definition lambda_reply_analytics :: string where
  \<open>lambda_reply_analytics =
     ''{"response":"Hello there","analytics":{"input_tokens":5,"output_tokens":7}}''\<close>

definition too_many_json :: string where
  \<open>too_many_json = ''{"message":"Too Many Requests"}''\<close>

definition edge_documents :: "(string \<times> jsval) list" where
  "edge_documents =
     [(completion_reply,
         JObj [(''choices'', JArr [JObj [(''message'', JObj [(''content'', JStr ''Hello there'')])]])]),
      (lambda_reply_plain, JObj [(''response'', JStr ''Hello there'')]),
      (lambda_reply_analytics,
         JObj [(''response'', JStr ''Hello there''),
               (''analytics'', JObj [(''input_tokens'', JNum 5), (''output_tokens'', JNum 7)])]),
      (too_many_json, JObj [(''message'', JStr ''Too Many Requests'')])]"

definition example_documents :: "(string \<times> jsval) list" where
  "example_documents =
     [(''null'', JNull),
      (session_without_refresh,
         JObj [(''token'', JStr ''t1''), (''expiresAt'', JNum 9000000), (''user'', example_user)]),
      (session_with_refresh,
         JObj [(''token'', JStr ''t1''), (''refreshToken'', JStr ''r1''),
               (''expiresAt'', JNum 9000000), (''user'', example_user)]),
      (reply_expires_zero,
         JObj [(''token'', JStr ''t2''), (''expiresIn'', JNum 0), (''user'', example_user)]),
      (reply_expires_60,
         JObj [(''token'', JStr ''t2''), (''expiresIn'', JNum 60), (''user'', example_user)]),
      (session_from_zero,
         JObj [(''token'', JStr ''t2''), (''expiresAt'', JNum 3601000), (''user'', example_user)]),
      (session_from_60,
         JObj [(''token'', JStr ''t2''), (''expiresAt'', JNum 61000), (''user'', example_user)])]"

text \<open>
  The sessions \<^verbatim>\<open>login\<close> builds from the two replies, with the texts \<^verbatim>\<open>JSON.stringify\<close>
  gives for them: the \<^verbatim>\<open>refreshToken\<close> that is \<^verbatim>\<open>undefined\<close> is left out.
\<close>

definition built_sessions :: "(string \<times> jsval) list" where
  "built_sessions =
     [(session_from_zero,
         JObj [(''token'', JStr ''t2''), (''refreshToken'', JUndefined),
               (''expiresAt'', JNum 3601000), (''user'', example_user)]),
      (session_from_60,
         JObj [(''token'', JStr ''t2''), (''refreshToken'', JUndefined),
               (''expiresAt'', JNum 61000), (''user'', example_user)])]"

text \<open>
  The platform of the examples: \<^verbatim>\<open>JSON.parse\<close> on the documents above (every other text
  is a syntax error), \<^verbatim>\<open>JSON.stringify\<close> on their values and on the built sessions, and
  the string conversion of primitive values and arrays. No example converts a string to a
  number.
\<close>

definition example_stringify :: "jsval \<Rightarrow> string" where
  "example_stringify v =
     (case find (\<lambda>d. snd d = v) (built_sessions @ example_documents @ chat_documents @ edge_documents) of
        Some d \<Rightarrow> fst d
      | None \<Rightarrow> ''null'')"

fun join_comma :: "string list \<Rightarrow> string" where
  "join_comma [] = []"
| "join_comma [x] = x"
| "join_comma (x # y # ys) = x @ '','' @ join_comma (y # ys)"

fun example_ToString :: "jsval \<Rightarrow> string" where
  "example_ToString JUndefined = ''undefined''"
| "example_ToString JNull = ''null''"
| "example_ToString (JBool b) = (if b then ''true'' else ''false'')"
| "example_ToString (JNum n) = show_int n"
| "example_ToString JNaN = ''NaN''"
| "example_ToString (JStr s) = s"
| "example_ToString (JArr xs) =
     join_comma (map (\<lambda>x. if x = JNull \<or> x = JUndefined then [] else example_ToString x) xs)"
| "example_ToString (JObj kvs) = ''[object Object]''"

text \<open>Timestamps as \<^verbatim>\<open>toISOString\<close> writes them; converting one gives it back.\<close>

definition example_timestamps :: "string list" where
  "example_timestamps =
     [''2024-03-05T08:15:00.000Z'', ''2024-03-05T12:00:00.000Z'', ''2024-03-05T23:59:59.999Z'',
      ''2024-03-06T00:00:00.000Z'']"

definition example_platform :: platform where
  "example_platform =
     \<lparr>JSON_parse = map_of (example_documents @ chat_documents @ edge_documents),
      JSON_stringify = example_stringify,
      ToString_other = example_ToString,
      StringToNumber = (\<lambda>s. None),
      function_source =
        (\<lambda>name. ''function '' @ (if name = ''constructor'' then ''Object'' else name)
                  @ ''() { [native code] }''),
      runtime_message = (\<lambda>e. ''runtime error''),
      Date_toISOString = map_of (map (\<lambda>t. (t, t)) example_timestamps)\<rparr>"

definition example_config :: aws_config where
  "example_config =
     \<lparr>chatEndpoint = ''https://api.example.com/prod/chat'',
      authEndpoint = ''https://api.example.com/prod/auth'',
      analyticsEndpoint = ''https://api.example.com/prod/analytics'',
      apiKey = []\<rparr>"

definition example_credentials :: jsval where
  "example_credentials = JObj [(''email'', JStr ''ann@example.com''), (''password'', JStr ''secret'')]"

text \<open>
  The payload the authentication client decodes from what \<^verbatim>\<open>fetch\<close> returned: the JSON
  of the response, unwrapped by \<^verbatim>\<open>parseLambdaResponse\<close>; \<open>None\<close> when there is none.
\<close>

definition auth_payload :: "platform \<Rightarrow> fetch_result \<Rightarrow> jsval option" where
  "auth_payload p fetched =
     (case fetched of
        NetworkFailure \<Rightarrow> None
      | Response response \<Rightarrow>
          (case response_json p response of
             Inl e \<Rightarrow> None
           | Inr data \<Rightarrow>
               (case auth_parseLambdaResponse p data of
                  Inl e \<Rightarrow> None
                | Inr parsed \<Rightarrow> Some parsed)))"

definition example_request :: ChatRequest where
  "example_request =
     \<lparr>req_messages = [\<lparr>msg_role = ''user'', msg_content = ''What is the leave policy?''\<rparr>],
      req_department = ''HR'',
      req_session_id = IsNull,
      req_locale = Given ''en-US'',
      req_rag_mode = Omitted\<rparr>"

definition example_env :: "fetch_result \<Rightarrow> chat_env" where
  "example_env reply =
     \<lparr>env_read_at = 1000, env_checked_at = 1000, env_renewed_at = 1000, env_token_read_at = 1000,
      refresh_reply = NetworkFailure,
      fresh_session_id = ''session_1000_k3x9q2a'',
      chat_reply = reply,
      iso_now = ''1970-01-01T00:00:01.000Z''\<rparr>"

definition example_edge_env :: "fetch_result \<Rightarrow> edge_env" where
  "example_edge_env reply =
     \<lparr>LOVABLE_API_KEY = Some ''gateway-key'',
      AWS_LAMBDA_ENDPOINT = None,
      AWS_LAMBDA_API_KEY = None,
      generated_session_id = ''session_1000_k3x9q2a'',
      elapsed_ms = 250,
      timestamp_now = ''1970-01-01T00:00:01.250Z'',
      caught_session_id = ''session_1251_p0o9i8u'',
      caught_elapsed_ms = 251,
      caught_timestamp = ''1970-01-01T00:00:01.251Z'',
      upstream = reply\<rparr>"

definition example_edge_request :: edge_request where
  "example_edge_request = \<lparr>req_method = ''POST'', req_json = Some example_request\<rparr>"


section \<open>Properties\<close>

subsection \<open>Token estimate\<close>

lemma estimateTokens_div: "estimateTokens text = (length text + 3) div 4"
proof -
  have "\<lceil>real (length text) / 4\<rceil> = (int (length text) + 3) div 4"
    by (simp add: ceiling_altdef floor_divide_of_nat_eq) linarith
  then show ?thesis
    by (simp add: estimateTokens_def nat_div_distrib) 
qed

text \<open>
  Claim C8. For every text the token estimate is the ceiling of a quarter of its length:
  it is the one number \<open>k\<close> with \<open>length text \<le> 4 * k < length text + 4\<close>, and the empty
  text gives 0.
\<close>

theorem estimateTokens_ceiling:
  "estimateTokens text = nat \<lceil>real (length text) / 4\<rceil>
   \<and> length text \<le> 4 * estimateTokens text
   \<and> 4 * estimateTokens text < length text + 4
   \<and> estimateTokens [] = 0"
proof (intro conjI)
  show "estimateTokens text = nat \<lceil>real (length text) / 4\<rceil>"
    by (simp add: estimateTokens_def)
  show "length text \<le> 4 * estimateTokens text"
    unfolding estimateTokens_div by arith
  show "4 * estimateTokens text < length text + 4"
    unfolding estimateTokens_div by arith
  show "estimateTokens [] = 0"
    by (simp add: estimateTokens_def)
qed

subsection \<open>Feedback records\<close>

lemma feedbackRecords_after_snoc:
  "feedbackRecords_after (calls @ [(m, r)]) = trackFeedback m r (feedbackRecords_after calls)"
  by (simp add: feedbackRecords_after_def)

lemma find_None_ids: "find (\<lambda>f. messageId f = m) prev = None \<longleftrightarrow> m \<notin> messageId ` set prev"
  by (auto simp: find_None_iff)

lemma trackFeedback_absent:
  "m \<notin> messageId ` set prev \<Longrightarrow> trackFeedback m r prev = prev @ [\<lparr>messageId = m, rating = r\<rparr>]"
  using find_None_ids [of m prev] by (simp add: trackFeedback_def)

lemma trackFeedback_present:
  "m \<in> messageId ` set prev \<Longrightarrow>
   trackFeedback m r prev = map (\<lambda>f. if messageId f = m then f\<lparr>rating := r\<rparr> else f) prev"
  using find_None_ids [of m prev] by (auto simp: trackFeedback_def split: option.splits)

lemma trackFeedback_others:
  "filter (\<lambda>f. messageId f \<noteq> m) (trackFeedback m r prev) = filter (\<lambda>f. messageId f \<noteq> m) prev"
proof (cases "m \<in> messageId ` set prev")
  case True
  have "filter (\<lambda>f. messageId f \<noteq> m) (map (\<lambda>f. if messageId f = m then f\<lparr>rating := r\<rparr> else f) xs)
        = filter (\<lambda>f. messageId f \<noteq> m) xs" for xs
    by (induction xs) auto
  with True show ?thesis by (simp add: trackFeedback_present)
next
  case False
  then show ?thesis by (simp add: trackFeedback_absent)
qed

lemma trackFeedback_ids:
  "map messageId (trackFeedback m r prev) =
     (if m \<in> messageId ` set prev then map messageId prev else map messageId prev @ [m])"
proof (cases "m \<in> messageId ` set prev")
  case True
  have "map messageId (map (\<lambda>f. if messageId f = m then f\<lparr>rating := r\<rparr> else f) xs) = map messageId xs" for xs
    by (induction xs) auto
  with True show ?thesis by (simp add: trackFeedback_present)
next
  case False
  then show ?thesis by (simp add: trackFeedback_absent)
qed

lemma trackFeedback_distinct:
  "distinct (map messageId prev) \<Longrightarrow> distinct (map messageId (trackFeedback m r prev))"
  by (auto simp: trackFeedback_ids)

lemma trackFeedback_map_of:
  "map_of (map (\<lambda>f. (messageId f, rating f)) (trackFeedback m r prev))
     = (map_of (map (\<lambda>f. (messageId f, rating f)) prev))(m \<mapsto> r)"
proof (cases "m \<in> messageId ` set prev")
  case True
  have h: "map_of (map (\<lambda>f. (messageId f, rating f)) (map (\<lambda>f. if messageId f = m then f\<lparr>rating := r\<rparr> else f) xs)) k
        = (if k = m \<and> m \<in> messageId ` set xs then Some r else map_of (map (\<lambda>f. (messageId f, rating f)) xs) k)" for xs k
    by (induction xs) auto
  from True show ?thesis by (simp add: trackFeedback_present fun_eq_iff h del: map_map)
next
  case False
  then have "map_of (map (\<lambda>f. (messageId f, rating f)) prev) m = None"
    by (simp add: map_of_eq_None_iff image_image)
  with False show ?thesis
    by (auto simp: trackFeedback_absent map_add_def fun_eq_iff split: option.splits)
qed

lemma feedbackRecords_after_inv:
  "distinct (map messageId (feedbackRecords_after calls))
   \<and> map_of (map (\<lambda>f. (messageId f, rating f)) (feedbackRecords_after calls)) = map_of (rev calls)"
proof (induction calls rule: rev_induct)
  case Nil
  show ?case by (simp add: feedbackRecords_after_def)
next
  case (snoc c calls)
  obtain m r where c: "c = (m, r)" by (cases c)
  show ?case
    using snoc unfolding c feedbackRecords_after_snoc
    by (simp add: trackFeedback_distinct trackFeedback_map_of)
qed

lemma distinct_filter_key:
  "distinct (map messageId fs) \<Longrightarrow> map_of (map (\<lambda>f. (messageId f, rating f)) fs) m = Some r
   \<Longrightarrow> filter (\<lambda>f. messageId f = m) fs = [\<lparr>messageId = m, rating = r\<rparr>]"
proof (induction fs)
  case Nil then show ?case by simp
next
  case (Cons f fs)
  show ?case
  proof (cases "messageId f = m")
    case True
    with Cons.prems have "m \<notin> messageId ` set fs"
      by auto
    then have "filter (\<lambda>f. messageId f = m) fs = []"
      by (auto simp: filter_empty_conv)
    with True Cons.prems show ?thesis by auto
  next
    case False
    with Cons show ?thesis by auto
  qed
qed

text \<open>
  Claim C6. After any sequence of \<^verbatim>\<open>trackFeedback\<close> calls the list holds at most one record
  per message id, and read as a table from ids to ratings it is the table in which the
  last call for each id wins. So after two submissions for the id \<open>m\<close>, whatever was
  submitted before and between them, the one record for \<open>m\<close> carries the later rating; a
  call for \<open>m\<close> leaves the records of all other ids as they were.
\<close>

theorem feedback_upsert:
  "distinct (map messageId (feedbackRecords_after calls))
   \<and> map_of (map (\<lambda>f. (messageId f, rating f)) (feedbackRecords_after calls)) = map_of (rev calls)
   \<and> filter (\<lambda>f. messageId f = m) (feedbackRecords_after (calls @ (m, r1) # between @ [(m, r2)]))
         = [\<lparr>messageId = m, rating = r2\<rparr>]
   \<and> filter (\<lambda>f. messageId f \<noteq> m) (trackFeedback m r prev) = filter (\<lambda>f. messageId f \<noteq> m) prev"
proof -
  let ?cs = "calls @ (m, r1) # between @ [(m, r2)]"
  have "map_of (map (\<lambda>f. (messageId f, rating f)) (feedbackRecords_after ?cs)) m = Some r2"
    using feedbackRecords_after_inv [of ?cs] by simp
  then have "filter (\<lambda>f. messageId f = m) (feedbackRecords_after ?cs) = [\<lparr>messageId = m, rating = r2\<rparr>]"
    using feedbackRecords_after_inv [of ?cs] distinct_filter_key by blast
  then show ?thesis
    using feedbackRecords_after_inv [of calls] trackFeedback_others by blast
qed

subsection \<open>Stored session\<close>

text \<open>The documents and the platform of the examples, for evaluation.\<close>

lemmas example_simps =
  example_platform_def example_documents_def built_sessions_def chat_documents_def
  example_config_def example_user_def
  direct_denied_def envelope_denied_def envelope_no_error_def edge_documents_def completion_reply_def
  lambda_reply_plain_def lambda_reply_analytics_def too_many_json_def
  example_stringify_def example_credentials_def
  session_with_refresh_def session_without_refresh_def reply_expires_zero_def
  reply_expires_60_def session_from_zero_def session_from_60_def example_timestamps_def

text \<open>
  Claim C10. \<^verbatim>\<open>getStoredSession\<close> never throws: it returns \<^verbatim>\<open>null\<close> and leaves the storage as
  it is when the key is absent or empty, when the stored string does not parse, and whenever the
  body of its \<^verbatim>\<open>try\<close> throws (as it does on a stored \<^verbatim>\<open>null\<close>); when the parsed session
  has \<^verbatim>\<open>expiresAt < now\<close> it removes the key and returns \<^verbatim>\<open>null\<close>; otherwise it returns
  the parsed session unchanged and leaves the storage as it is.
\<close>

theorem getStoredSession_total:
  "(ls tokenStorageKey = None \<longrightarrow> getStoredSession p now ls = (JNull, ls))
   \<and> (ls tokenStorageKey = Some [] \<longrightarrow> getStoredSession p now ls = (JNull, ls))
   \<and> (ls tokenStorageKey = Some s \<and> JSON_parse p s = None \<longrightarrow> getStoredSession p now ls = (JNull, ls))
   \<and> (ls tokenStorageKey = Some s \<and> s \<noteq> [] \<and> JSON_parse p s = Some v
        \<and> js_lt p (property v ''expiresAt'') now
        \<longrightarrow> getStoredSession p now ls = (JNull, ls(tokenStorageKey := None)))
   \<and> (ls tokenStorageKey = Some s \<and> s \<noteq> [] \<and> JSON_parse p s = Some v \<and> v \<noteq> JUndefined
        \<and> \<not> js_lt p (property v ''expiresAt'') now
        \<longrightarrow> getStoredSession p now ls = (v, ls))
   \<and> (getStoredSession_try p now ls = (Inl e, ls') \<longrightarrow> getStoredSession p now ls = (JNull, ls))"
  by (auto simp: getStoredSession_def getStoredSession_try_def read_member_def nullish_def
           split: option.splits sum.splits if_splits)

text \<open>
  The cases at the example platform: no key, a text that is not JSON, a stored \<^verbatim>\<open>null\<close>,
  an expired session and a live one.
\<close>

theorem getStoredSession_total_witness:
  "getStoredSession example_platform 1000 Map.empty = (JNull, Map.empty)
   \<and> getStoredSession example_platform 1000 [tokenStorageKey \<mapsto> ''{not json'']
       = (JNull, [tokenStorageKey \<mapsto> ''{not json''])
   \<and> getStoredSession example_platform 1000 [tokenStorageKey \<mapsto> ''null'']
       = (JNull, [tokenStorageKey \<mapsto> ''null''])
   \<and> getStoredSession example_platform 9000001 [tokenStorageKey \<mapsto> session_with_refresh]
       = (JNull, [tokenStorageKey \<mapsto> session_with_refresh](tokenStorageKey := None))
   \<and> getStoredSession example_platform 1000 [tokenStorageKey \<mapsto> session_with_refresh]
       = (JObj [(''token'', JStr ''t1''), (''refreshToken'', JStr ''r1''),
                (''expiresAt'', JNum 9000000), (''user'', example_user)],
          [tokenStorageKey \<mapsto> session_with_refresh])"
proof -
  let ?v = "JObj [(''token'', JStr ''t1''), (''refreshToken'', JStr ''r1''),
                (''expiresAt'', JNum 9000000), (''user'', example_user)]"
  have parse: "JSON_parse example_platform session_with_refresh = Some ?v"
    "JSON_parse example_platform ''{not json'' = None"
    "JSON_parse example_platform ''null'' = Some JNull"
    by (simp_all add: example_simps)
  have ne: "session_with_refresh \<noteq> []"
    by (simp add: example_simps)
  show ?thesis
    using getStoredSession_total [where p = example_platform and now = 1000 and ls = Map.empty]
      getStoredSession_total [where p = example_platform and now = 1000
        and ls = "[tokenStorageKey \<mapsto> ''{not json'']" and s = "''{not json''"]
      getStoredSession_total [where p = example_platform and now = 1000
        and ls = "[tokenStorageKey \<mapsto> ''null'']" and s = "''null''" and v = JNull]
      getStoredSession_total [where p = example_platform and now = 9000001
        and ls = "[tokenStorageKey \<mapsto> session_with_refresh]" and s = session_with_refresh and v = ?v]
      getStoredSession_total [where p = example_platform and now = 1000
        and ls = "[tokenStorageKey \<mapsto> session_with_refresh]" and s = session_with_refresh and v = ?v]
      parse ne
    by simp
qed

subsection \<open>Session refresh\<close>

lemma getStoredSession_absent:
  "ls tokenStorageKey = None \<Longrightarrow> getStoredSession p now ls = (JNull, ls)"
  by (simp add: getStoredSession_def getStoredSession_try_def)

lemma getStoredSession_live:
  assumes "ls tokenStorageKey = Some s" "s \<noteq> []" "JSON_parse p s = Some session"
    "property session ''expiresAt'' = JNum e" "read_at \<le> e"
  shows "getStoredSession p read_at ls = (session, ls)"
proof -
  from assms(4) have "\<not> nullish session" by (auto simp: nullish_def)
  with assms show ?thesis
    by (simp add: getStoredSession_def getStoredSession_try_def read_member_def)
qed

lemma refreshSession_calls:
  "snd (snd (refreshSession p cfg read_at checked_at renewed_at fetched ls)) \<noteq> [] \<longleftrightarrow>
     truthy (read_optional (fst (getStoredSession p read_at ls)) ''refreshToken'')
     \<and> js_lt p (js_sub p (property (fst (getStoredSession p read_at ls)) ''expiresAt'') (JNum checked_at)) (5 * 60 * 1000)"
  by (auto simp: refreshSession_def Let_def split: prod.splits sum.splits option.splits)

text \<open>
  Claim C1, as the code has it. \<^verbatim>\<open>refreshSession\<close> makes no request and leaves the storage
  as it is whenever no session is stored, or the stored, unexpired session has no refresh
  token, or it has one and its \<^verbatim>\<open>expiresAt\<close> is at least 5 minutes after now. In the last
  case it returns the stored session unchanged; without a refresh token it returns
  \<^verbatim>\<open>null\<close>, by the guard \<^verbatim>\<open>if (!session?.refreshToken) return null\<close>. It makes the
  refresh request exactly when a refresh token is stored and \<^verbatim>\<open>expiresAt - now\<close> is below
  5 minutes; for stored values of any shape, a request is made only if the stored
  \<^verbatim>\<open>refreshToken\<close> is truthy and the test \<^verbatim>\<open>expiresAt - now < 5 * 60 * 1000\<close> holds.
\<close>

theorem refreshSession_noop:
  "(ls tokenStorageKey = None \<longrightarrow> refreshSession p cfg read_at checked_at renewed_at fetched ls = (JNull, ls, []))
   \<and> (ls tokenStorageKey = Some s \<and> s \<noteq> [] \<and> JSON_parse p s = Some session
        \<and> property session ''expiresAt'' = JNum e \<and> read_at \<le> e
      \<longrightarrow> (\<not> truthy (property session ''refreshToken'')
             \<longrightarrow> refreshSession p cfg read_at checked_at renewed_at fetched ls = (JNull, ls, []))
          \<and> (truthy (property session ''refreshToken'') \<and> 5 * 60 * 1000 \<le> e - checked_at
             \<longrightarrow> refreshSession p cfg read_at checked_at renewed_at fetched ls = (session, ls, []))
          \<and> (snd (snd (refreshSession p cfg read_at checked_at renewed_at fetched ls)) \<noteq> []
             \<longleftrightarrow> truthy (property session ''refreshToken'') \<and> e - checked_at < 5 * 60 * 1000))
   \<and> (snd (snd (refreshSession p cfg read_at checked_at renewed_at fetched ls)) \<noteq> []
      \<longrightarrow> truthy (read_optional (fst (getStoredSession p read_at ls)) ''refreshToken'')
          \<and> js_lt p (js_sub p (property (fst (getStoredSession p read_at ls)) ''expiresAt'') (JNum checked_at))
               (5 * 60 * 1000))"
proof (intro conjI impI)
  assume "ls tokenStorageKey = None"
  then have "getStoredSession p read_at ls = (JNull, ls)"
    by (rule getStoredSession_absent)
  then show "refreshSession p cfg read_at checked_at renewed_at fetched ls = (JNull, ls, [])"
    by (simp add: refreshSession_def read_optional_def nullish_def)
next
  assume a: "ls tokenStorageKey = Some s \<and> s \<noteq> [] \<and> JSON_parse p s = Some session
        \<and> property session ''expiresAt'' = JNum e \<and> read_at \<le> e"
  then have g: "getStoredSession p read_at ls = (session, ls)"
    using getStoredSession_live by blast
  from a have nn: "\<not> nullish session" by (auto simp: nullish_def)
  {
    assume "\<not> truthy (property session ''refreshToken'')"
    with g nn show "refreshSession p cfg read_at checked_at renewed_at fetched ls = (JNull, ls, [])"
      by (simp add: refreshSession_def read_optional_def)
  }
  {
    assume "truthy (property session ''refreshToken'') \<and> 5 * 60 * 1000 \<le> e - checked_at"
    with g nn a show "refreshSession p cfg read_at checked_at renewed_at fetched ls = (session, ls, [])"
      by (simp add: refreshSession_def read_optional_def js_sub_def of_number_def)
  }
  show "snd (snd (refreshSession p cfg read_at checked_at renewed_at fetched ls)) \<noteq> []
             \<longleftrightarrow> truthy (property session ''refreshToken'') \<and> e - checked_at < 5 * 60 * 1000"
    using g nn a unfolding refreshSession_calls
    by (simp add: read_optional_def js_sub_def of_number_def)
next
  assume "snd (snd (refreshSession p cfg read_at checked_at renewed_at fetched ls)) \<noteq> []"
  then show "truthy (read_optional (fst (getStoredSession p read_at ls)) ''refreshToken'')"
    "js_lt p (js_sub p (property (fst (getStoredSession p read_at ls)) ''expiresAt'') (JNum checked_at))
               (5 * 60 * 1000)"
    unfolding refreshSession_calls by simp_all
qed


text \<open>
  Claim C1 as stated fails: with a live session stored that has no refresh token,
  \<^verbatim>\<open>refreshSession\<close> returns \<^verbatim>\<open>null\<close>, not the stored session.
\<close>

theorem refreshSession_returns_null_counterexample:
  "fst (getStoredSession example_platform 1000 [tokenStorageKey \<mapsto> session_without_refresh])
     = JObj [(''token'', JStr ''t1''), (''expiresAt'', JNum 9000000), (''user'', example_user)]
   \<and> fst (refreshSession example_platform example_config 1000 1000 1000 NetworkFailure
            [tokenStorageKey \<mapsto> session_without_refresh]) = JNull"
  by (simp add: refreshSession_def getStoredSession_def getStoredSession_try_def read_member_def
        nullish_def read_optional_def example_simps)

text \<open>
  The theorem at the example platform: a session with a refresh token far from expiry, a
  session without a refresh token, an empty storage, and a session within 5 minutes of
  expiry.
\<close>

theorem refreshSession_noop_witness:
  "refreshSession example_platform example_config 1000 1000 1000 NetworkFailure
       [tokenStorageKey \<mapsto> session_with_refresh]
     = (JObj [(''token'', JStr ''t1''), (''refreshToken'', JStr ''r1''),
              (''expiresAt'', JNum 9000000), (''user'', example_user)],
        [tokenStorageKey \<mapsto> session_with_refresh], [])
   \<and> refreshSession example_platform example_config 1000 1000 1000 NetworkFailure
       [tokenStorageKey \<mapsto> session_without_refresh]
     = (JNull, [tokenStorageKey \<mapsto> session_without_refresh], [])
   \<and> refreshSession example_platform example_config 1000 1000 1000 NetworkFailure Map.empty
     = (JNull, Map.empty, [])
   \<and> snd (snd (refreshSession example_platform example_config 8900000 8900000 8900000 NetworkFailure
       [tokenStorageKey \<mapsto> session_with_refresh])) \<noteq> []"
proof -
  let ?a = "JObj [(''token'', JStr ''t1''), (''refreshToken'', JStr ''r1''),
              (''expiresAt'', JNum 9000000), (''user'', example_user)]"
  let ?b = "JObj [(''token'', JStr ''t1''), (''expiresAt'', JNum 9000000), (''user'', example_user)]"
  have parse: "JSON_parse example_platform session_with_refresh = Some ?a"
    "JSON_parse example_platform session_without_refresh = Some ?b"
    "session_with_refresh \<noteq> []" "session_without_refresh \<noteq> []"
    by (simp_all add: example_simps)
  show ?thesis
    using
      refreshSession_noop [where p = example_platform and cfg = example_config and read_at = 1000
        and checked_at = 1000 and renewed_at = 1000 and fetched = NetworkFailure and e = 9000000
        and ls = "[tokenStorageKey \<mapsto> session_with_refresh]" and s = session_with_refresh
        and session = ?a]
      refreshSession_noop [where p = example_platform and cfg = example_config and read_at = 1000
        and checked_at = 1000 and renewed_at = 1000 and fetched = NetworkFailure and e = 9000000
        and ls = "[tokenStorageKey \<mapsto> session_without_refresh]" and s = session_without_refresh
        and session = ?b]
      refreshSession_noop [where p = example_platform and cfg = example_config and read_at = 1000
        and checked_at = 1000 and renewed_at = 1000 and fetched = NetworkFailure and ls = Map.empty]
      refreshSession_noop [where p = example_platform and cfg = example_config and read_at = 8900000
        and checked_at = 8900000 and renewed_at = 8900000 and fetched = NetworkFailure and e = 9000000
        and ls = "[tokenStorageKey \<mapsto> session_with_refresh]" and s = session_with_refresh
        and session = ?a]
      parse
    by simp
qed

subsection \<open>Login and signup\<close>

lemma auth_request_success:
  assumes "auth_request path failed p cfg now fetched credentials ls = (Inr session, ls', calls)"
  shows "\<exists>parsed. auth_payload p fetched = Some parsed
           \<and> session = JObj [(''token'', property parsed ''token''),
                            (''refreshToken'', property parsed ''refreshToken''),
                            (''expiresAt'', expiry p now parsed),
                            (''user'', property parsed ''user'')]
           \<and> ls' = ls(tokenStorageKey \<mapsto> JSON_stringify p session)"
  using assms
  by (auto simp: auth_request_def auth_payload_def storeSession_def Let_def
           split: fetch_result.splits sum.splits if_splits)

lemma expiry_supplied:
  "property parsed ''expiresIn'' = JNum n \<Longrightarrow> n \<noteq> 0 \<Longrightarrow> expiry p now parsed = JNum (now + n * 1000)"
  by (simp add: expiry_def js_or_def js_mul_def js_add_numbers_def of_number_def)

lemma expiry_default:
  "property parsed ''expiresIn'' = JNum 0 \<or> property parsed ''expiresIn'' = JUndefined
   \<Longrightarrow> expiry p now parsed = JNum (now + 3600 * 1000)"
  by (auto simp: expiry_def js_or_def js_mul_def js_add_numbers_def of_number_def)

text \<open>
  Claim C4, as the code has it. On a successful login or signup the session is persisted
  with \<^verbatim>\<open>expiresAt = now + (expiresIn || 3600) * 1000\<close>: an \<^verbatim>\<open>expiresIn\<close> the provider
  supplies is used when it is not 0, and an absent \<^verbatim>\<open>expiresIn\<close> or \<^verbatim>\<open>expiresIn = 0\<close>
  gives the default of 3600 seconds.
\<close>

theorem login_expiry:
  assumes "f = login \<or> f = signup"
    and "f p cfg now fetched credentials ls = (Inr session, ls', calls)"
  shows "\<exists>parsed. auth_payload p fetched = Some parsed
           \<and> ls' = ls(tokenStorageKey \<mapsto> JSON_stringify p session)
           \<and> property session ''expiresAt''
                = js_add_numbers p (JNum now)
                    (js_mul p (js_or (property parsed ''expiresIn'') (JNum 3600)) (JNum 1000))
           \<and> (\<forall>n. property parsed ''expiresIn'' = JNum n \<and> n \<noteq> 0
                 \<longrightarrow> property session ''expiresAt'' = JNum (now + n * 1000))
           \<and> (property parsed ''expiresIn'' = JNum 0 \<or> property parsed ''expiresIn'' = JUndefined
                 \<longrightarrow> property session ''expiresAt'' = JNum (now + 3600 * 1000))"
proof -
  from assms obtain path failed where
    "auth_request path failed p cfg now fetched credentials ls = (Inr session, ls', calls)"
    by (auto simp: login_def signup_def)
  then obtain parsed where p: "auth_payload p fetched = Some parsed"
      "session = JObj [(''token'', property parsed ''token''),
                            (''refreshToken'', property parsed ''refreshToken''),
                            (''expiresAt'', expiry p now parsed),
                            (''user'', property parsed ''user'')]"
      "ls' = ls(tokenStorageKey \<mapsto> JSON_stringify p session)"
    using auth_request_success by blast
  from p(2) have e: "property session ''expiresAt'' = expiry p now parsed"
    by simp
  show ?thesis
    using p(1,3) e expiry_supplied [of parsed _ p now] expiry_default [of parsed p now]
    by (auto simp: expiry_def)
qed

text \<open>
  Claim C4 as stated fails at \<^verbatim>\<open>expiresIn = 0\<close>: with \<^verbatim>\<open>now = 1000\<close> the session expires at
  \<open>1000 + 3600 * 1000\<close>, not at \<open>1000 + 0 * 1000\<close>.
\<close>

theorem login_expiry_zero_counterexample:
  "login example_platform example_config 1000
      (Response \<lparr>http_status = 200, http_body = reply_expires_zero\<rparr>) example_credentials Map.empty
   = (Inr (JObj [(''token'', JStr ''t2''), (''refreshToken'', JUndefined),
                 (''expiresAt'', JNum 3601000), (''user'', example_user)]),
      [tokenStorageKey \<mapsto> session_from_zero],
      [Fetch ''https://api.example.com/prod/auth/login''
         [(''Content-Type'', ''application/json'')] example_credentials])"
  by (simp add: login_def auth_request_def response_json_def auth_parseLambdaResponse_def
        read_member_def nullish_def response_ok_def js_or_def expiry_def js_mul_def js_add_numbers_def
        of_number_def storeSession_def api_headers_def example_simps)


text \<open>The theorem at a reply with \<^verbatim>\<open>expiresIn = 60\<close> and \<^verbatim>\<open>now = 1000\<close>.\<close>

theorem login_expiry_witness:
  "fst (login example_platform example_config 1000
      (Response \<lparr>http_status = 200, http_body = reply_expires_60\<rparr>) example_credentials Map.empty)
   = Inr (JObj [(''token'', JStr ''t2''), (''refreshToken'', JUndefined),
                (''expiresAt'', JNum 61000), (''user'', example_user)])
   \<and> fst (snd (login example_platform example_config 1000
      (Response \<lparr>http_status = 200, http_body = reply_expires_60\<rparr>) example_credentials Map.empty))
       tokenStorageKey = Some session_from_60"
proof -
  let ?reply = "Response \<lparr>http_status = 200, http_body = reply_expires_60\<rparr>"
  let ?parsed = "JObj [(''token'', JStr ''t2''), (''expiresIn'', JNum 60), (''user'', example_user)]"
  obtain r ls' calls where run:
    "login example_platform example_config 1000 ?reply example_credentials Map.empty = (r, ls', calls)"
    by (cases "login example_platform example_config 1000 ?reply example_credentials Map.empty")
  have payload: "auth_payload example_platform ?reply = Some ?parsed"
    by (simp add: auth_payload_def response_json_def auth_parseLambdaResponse_def read_member_def
          nullish_def example_simps)
  have ok: "r = Inr (JObj [(''token'', JStr ''t2''), (''refreshToken'', JUndefined),
                (''expiresAt'', expiry example_platform 1000 ?parsed), (''user'', example_user)])"
    using run payload
    by (simp add: login_def auth_request_def auth_payload_def response_json_def read_member_def
          nullish_def response_ok_def js_or_def Let_def example_user_def
          split: sum.splits)
  then obtain session where s: "r = Inr session"
    "session = JObj [(''token'', JStr ''t2''), (''refreshToken'', JUndefined),
                (''expiresAt'', expiry example_platform 1000 ?parsed), (''user'', example_user)]"
    by blast
  from login_expiry [where f = login, OF _ run [unfolded s(1)]] payload
  have "ls' = Map.empty(tokenStorageKey \<mapsto> JSON_stringify example_platform session)"
    and "property session ''expiresAt'' = JNum (1000 + 60 * 1000)"
    by auto
  with s have "r = Inr (JObj [(''token'', JStr ''t2''), (''refreshToken'', JUndefined),
                (''expiresAt'', JNum 61000), (''user'', example_user)])"
    and "ls' tokenStorageKey = Some session_from_60"
    by (simp_all add: example_simps)
  with run show ?thesis by simp
qed

subsection \<open>Errors of the chat client\<close>

lemma sendChatMessage_result:
  "chat_reply env = Response r \<Longrightarrow>
   \<exists>sessionId. fst (sendChatMessage p cfg env request ls ss) = chat_result p env request sessionId r"
  by (auto simp: sendChatMessage_def Let_def split: prod.splits)

lemma chat_result_status_denied:
  assumes "http_status r = 401 \<or> http_status r = 403"
  shows "chat_result p env request sessionId r
           = (case JSON_parse p (http_body r) of
                None \<Rightarrow> Inl SyntaxError
              | Some data \<Rightarrow> Inl (Error ''Authentication required. Please log in.''))"
  using assms
  by (auto simp: chat_result_def response_json_def response_ok_def split: option.splits)

lemma chat_result_envelope_error:
  assumes "response_ok r" "JSON_parse p (http_body r) = Some data"
    "isLambdaProxyResponse data" "js_ge p (property data ''statusCode'') 400"
  shows "chat_result p env request sessionId r
           = (case JSON_parse p (ToString p (property data ''body'')) of
                None \<Rightarrow> Inl (Error (''Failed to parse Lambda response body: ''
                                     @ ToString p (property data ''body'')))
              | Some parsed \<Rightarrow>
                  if nullish parsed then Inl TypeError
                  else Inl (Error (ToString p
                         (js_or (property parsed ''error'')
                            (JStr (''Lambda error: '' @ ToString p (property data ''statusCode'')))))))"
proof (cases "JSON_parse p (ToString p (property data ''body''))")
  case None
  with assms(1-3) show ?thesis
    by (simp add: chat_result_def response_json_def client_parseLambdaResponse_def)
next
  case (Some parsed)
  with assms show ?thesis
    by (simp add: chat_result_def response_json_def client_parseLambdaResponse_def read_member_def)
qed

lemma chat_result_envelope:
  assumes "response_ok r" "JSON_parse p (http_body r) = Some (JObj kvs)"
    "map_of kvs ''statusCode'' = Some (JNum code)" "400 \<le> code"
    "map_of kvs ''body'' = Some (JStr b)" "JSON_parse p b = Some parsed"
    "property parsed ''error'' = JStr e" "e \<noteq> []"
  shows "chat_result p env request sessionId r = Inl (Error e)"
proof -
  from assms(7) have "\<not> nullish parsed" by (auto simp: nullish_def)
  with assms show ?thesis
    by (simp add: chat_result_def response_json_def client_parseLambdaResponse_def read_member_def js_or_def)
qed

text \<open>
  Claim C2, as the code has it. \<^verbatim>\<open>sendChatMessage\<close> rejects both forms of the denied reply,
  with different errors. It reads the JSON of the reply before it looks at the status: a
  reply with HTTP status 401 or 403 whose body is JSON is rejected with the fixed message
  \<^verbatim>\<open>Authentication required. Please log in.\<close>, whatever the JSON says, and one whose body is
  not JSON with the \<^verbatim>\<open>SyntaxError\<close> of \<^verbatim>\<open>response.json()\<close>. A proxy envelope that arrives
  with an OK HTTP status and carries a \<^verbatim>\<open>statusCode\<close> of 400 or more is rejected with the
  \<^verbatim>\<open>error\<close> of its decoded body when that is truthy and with \<^verbatim>\<open>Lambda error:\<close> and the
  status code otherwise; a body that does not decode is rejected with
  \<^verbatim>\<open>Failed to parse Lambda response body:\<close> and the body, and a body that decodes to
  \<^verbatim>\<open>null\<close> with a \<^verbatim>\<open>TypeError\<close>. So the envelope
  \<^verbatim>\<open>{statusCode: 403, body: "{\"error\":\"denied\"}"}\<close> gives \<^verbatim>\<open>denied\<close>, and the direct body
  \<^verbatim>\<open>{error: "denied"}\<close> with HTTP 403 gives the fixed message.
\<close>

theorem sendChatMessage_denied:
  "(chat_reply env = Response r \<and> (http_status r = 401 \<or> http_status r = 403)
     \<longrightarrow> fst (sendChatMessage p cfg env request ls ss)
           = (case JSON_parse p (http_body r) of
                None \<Rightarrow> Inl SyntaxError
              | Some data \<Rightarrow> Inl (Error ''Authentication required. Please log in.'')))
   \<and> (chat_reply env = Response r \<and> response_ok r \<and> JSON_parse p (http_body r) = Some envelope
      \<and> isLambdaProxyResponse envelope \<and> js_ge p (property envelope ''statusCode'') 400
     \<longrightarrow> fst (sendChatMessage p cfg env request ls ss)
           = (case JSON_parse p (ToString p (property envelope ''body'')) of
                None \<Rightarrow> Inl (Error (''Failed to parse Lambda response body: ''
                                     @ ToString p (property envelope ''body'')))
              | Some parsed \<Rightarrow>
                  if nullish parsed then Inl TypeError
                  else Inl (Error (ToString p
                         (js_or (property parsed ''error'')
                            (JStr (''Lambda error: ''
                                   @ ToString p (property envelope ''statusCode''))))))))
   \<and> (chat_reply env = Response r \<and> response_ok r \<and> JSON_parse p (http_body r) = Some (JObj kvs)
      \<and> map_of kvs ''statusCode'' = Some (JNum code) \<and> 400 \<le> code
      \<and> map_of kvs ''body'' = Some (JStr b) \<and> JSON_parse p b = Some parsed
      \<and> property parsed ''error'' = JStr e \<and> e \<noteq> []
     \<longrightarrow> fst (sendChatMessage p cfg env request ls ss) = Inl (Error e))"
proof (intro conjI impI)
  assume a: "chat_reply env = Response r \<and> (http_status r = 401 \<or> http_status r = 403)"
  then obtain sessionId where
    "fst (sendChatMessage p cfg env request ls ss) = chat_result p env request sessionId r"
    using sendChatMessage_result by blast
  with a show "fst (sendChatMessage p cfg env request ls ss)
           = (case JSON_parse p (http_body r) of
                None \<Rightarrow> Inl SyntaxError
              | Some data \<Rightarrow> Inl (Error ''Authentication required. Please log in.''))"
    using chat_result_status_denied [of r p env request sessionId] by simp
next
  assume a: "chat_reply env = Response r \<and> response_ok r \<and> JSON_parse p (http_body r) = Some envelope
      \<and> isLambdaProxyResponse envelope \<and> js_ge p (property envelope ''statusCode'') 400"
  then obtain sessionId where
    "fst (sendChatMessage p cfg env request ls ss) = chat_result p env request sessionId r"
    using sendChatMessage_result by blast
  with a show "fst (sendChatMessage p cfg env request ls ss)
           = (case JSON_parse p (ToString p (property envelope ''body'')) of
                None \<Rightarrow> Inl (Error (''Failed to parse Lambda response body: ''
                                     @ ToString p (property envelope ''body'')))
              | Some parsed \<Rightarrow>
                  if nullish parsed then Inl TypeError
                  else Inl (Error (ToString p
                         (js_or (property parsed ''error'')
                            (JStr (''Lambda error: ''
                                   @ ToString p (property envelope ''statusCode'')))))))"
    using chat_result_envelope_error [of r p envelope env request sessionId] by simp
next
  assume a: "chat_reply env = Response r \<and> response_ok r \<and> JSON_parse p (http_body r) = Some (JObj kvs)
      \<and> map_of kvs ''statusCode'' = Some (JNum code) \<and> 400 \<le> code
      \<and> map_of kvs ''body'' = Some (JStr b) \<and> JSON_parse p b = Some parsed
      \<and> property parsed ''error'' = JStr e \<and> e \<noteq> []"
  then obtain sessionId where
    "fst (sendChatMessage p cfg env request ls ss) = chat_result p env request sessionId r"
    using sendChatMessage_result by blast
  with a show "fst (sendChatMessage p cfg env request ls ss) = Inl (Error e)"
    using chat_result_envelope [of r p kvs code b parsed e env request sessionId] by simp
qed

text \<open>
  Claim C2 as stated fails: the two forms of the denied reply do not produce the same
  error.
\<close>

theorem sendChatMessage_denied_counterexample:
  "fst (sendChatMessage example_platform example_config
          (example_env (Response \<lparr>http_status = 200, http_body = envelope_denied\<rparr>))
          example_request Map.empty Map.empty)
   \<noteq> fst (sendChatMessage example_platform example_config
          (example_env (Response \<lparr>http_status = 403, http_body = direct_denied\<rparr>))
          example_request Map.empty Map.empty)"
  by (simp add: sendChatMessage_def getHeaders_def refreshSession_def getStoredSession_def
        getStoredSession_try_def read_optional_def nullish_def getSessionId_def chat_result_def
        response_json_def response_ok_def client_parseLambdaResponse_def read_member_def js_or_def
        truthy_string_def example_env_def example_request_def example_simps Let_def)

text \<open>
  The theorem at the two replies of the claim, at a 403 reply whose body is not JSON, and
  at an envelope whose body has no \<^verbatim>\<open>error\<close>.
\<close>

theorem sendChatMessage_denied_witness:
  "fst (sendChatMessage example_platform example_config
          (example_env (Response \<lparr>http_status = 200, http_body = envelope_denied\<rparr>))
          example_request Map.empty Map.empty)
     = Inl (Error ''denied'')
   \<and> fst (sendChatMessage example_platform example_config
          (example_env (Response \<lparr>http_status = 403, http_body = direct_denied\<rparr>))
          example_request Map.empty Map.empty)
     = Inl (Error ''Authentication required. Please log in.'')
   \<and> fst (sendChatMessage example_platform example_config
          (example_env (Response \<lparr>http_status = 403, http_body = ''Forbidden''\<rparr>))
          example_request Map.empty Map.empty)
     = Inl SyntaxError
   \<and> fst (sendChatMessage example_platform example_config
          (example_env (Response \<lparr>http_status = 200, http_body = envelope_no_error\<rparr>))
          example_request Map.empty Map.empty)
     = Inl (Error ''Lambda error: 403'')"
proof -
  let ?envelope = "JObj [(''statusCode'', JNum 403), (''body'', JStr direct_denied)]"
  let ?bare = "JObj [(''statusCode'', JNum 403), (''body'', JStr ''{}'')]"
  have parse:
    "JSON_parse example_platform envelope_denied = Some ?envelope"
    "JSON_parse example_platform direct_denied = Some (JObj [(''error'', JStr ''denied'')])"
    "JSON_parse example_platform ''Forbidden'' = None"
    "JSON_parse example_platform envelope_no_error = Some ?bare"
    "JSON_parse example_platform ''{}'' = Some (JObj [])"
    by (simp_all add: example_simps)
  have reply: "chat_reply (example_env reply) = reply" for reply
    by (simp add: example_env_def)
  have first: "fst (sendChatMessage example_platform example_config
          (example_env (Response \<lparr>http_status = 200, http_body = envelope_denied\<rparr>))
          example_request Map.empty Map.empty) = Inl (Error ''denied'')"
    using sendChatMessage_denied [where p = example_platform and cfg = example_config
        and env = "example_env (Response \<lparr>http_status = 200, http_body = envelope_denied\<rparr>)"
        and r = "\<lparr>http_status = 200, http_body = envelope_denied\<rparr>"
        and kvs = "[(''statusCode'', JNum 403), (''body'', JStr direct_denied)]"
        and code = 403 and b = direct_denied and parsed = "JObj [(''error'', JStr ''denied'')]"
        and e = "''denied''" and request = example_request and ls = Map.empty and ss = Map.empty]
      parse reply
    by (simp add: response_ok_def)
  have second: "fst (sendChatMessage example_platform example_config
          (example_env (Response \<lparr>http_status = 403, http_body = direct_denied\<rparr>))
          example_request Map.empty Map.empty)
     = Inl (Error ''Authentication required. Please log in.'')"
    using sendChatMessage_denied [where p = example_platform and cfg = example_config
        and env = "example_env (Response \<lparr>http_status = 403, http_body = direct_denied\<rparr>)"
        and r = "\<lparr>http_status = 403, http_body = direct_denied\<rparr>"
        and request = example_request and ls = Map.empty and ss = Map.empty]
      parse reply
    by simp
  have third: "fst (sendChatMessage example_platform example_config
          (example_env (Response \<lparr>http_status = 403, http_body = ''Forbidden''\<rparr>))
          example_request Map.empty Map.empty) = Inl SyntaxError"
    using sendChatMessage_denied [where p = example_platform and cfg = example_config
        and env = "example_env (Response \<lparr>http_status = 403, http_body = ''Forbidden''\<rparr>)"
        and r = "\<lparr>http_status = 403, http_body = ''Forbidden''\<rparr>"
        and request = example_request and ls = Map.empty and ss = Map.empty]
      parse reply
    by simp
  have fourth: "fst (sendChatMessage example_platform example_config
          (example_env (Response \<lparr>http_status = 200, http_body = envelope_no_error\<rparr>))
          example_request Map.empty Map.empty) = Inl (Error ''Lambda error: 403'')"
    using sendChatMessage_denied [where p = example_platform and cfg = example_config
        and env = "example_env (Response \<lparr>http_status = 200, http_body = envelope_no_error\<rparr>)"
        and r = "\<lparr>http_status = 200, http_body = envelope_no_error\<rparr>"
        and envelope = ?bare
        and request = example_request and ls = Map.empty and ss = Map.empty]
      parse reply
    by (simp add: response_ok_def nullish_def js_or_def example_platform_def show_int_def
          show_nat.simps)
  from first second third fourth show ?thesis by blast
qed

subsection \<open>Token counts of the edge functions\<close>

lemma estimated_success_tokens:
  assumes "estimated_success p env request response = Inr out"
  shows "\<exists>content a srcs. out_body out = ChatBody content a srcs
           \<and> an_input_tokens a = JNum (int (inputTokens p request))
           \<and> estimateTokens_of p content = Inr (an_output_tokens a)
           \<and> an_total_tokens a = js_add_numbers p (an_input_tokens a) (an_output_tokens a)"
  using assms
  by (auto simp: estimated_success_def split: sum.splits)

lemma serve_estimating_success:
  assumes "v = Gateway \<or> v = LambdaKey"
    and "out_body (fst (serve v p env req)) = ChatBody content a srcs"
  shows "\<exists>request response. req_json req = Some request
           \<and> estimated_success p env request response = Inr (fst (serve v p env req))"
  using assms
  by (auto simp: serve_gateway_def gateway_try_def serve_lambda_def lambda_try_def caught_def
        rate_limited_def payment_required_def access_denied_def Let_def
      split: if_splits option.splits fetch_result.splits sum.splits prod.splits)

lemma serve_proxy_success:
  assumes "out_body (fst (serve_proxy p env req)) = ChatBody content a srcs"
  shows "\<exists>body. proxy_body p env = Some body
           \<and> an_input_tokens a = js_or (read_optional (property body ''analytics'') ''input_tokens'') (JNum 0)
           \<and> an_output_tokens a = js_or (read_optional (property body ''analytics'') ''output_tokens'') (JNum 0)
           \<and> an_total_tokens a = js_or (read_optional (property body ''analytics'') ''total_tokens'') (JNum 0)"
  using assms
  by (auto simp: serve_proxy_def proxy_try_def proxy_reply_def proxy_body_def caught_def
        rate_limited_def access_denied_def Let_def
      split: if_splits option.splits fetch_result.splits sum.splits prod.splits)


text \<open>
  Claim C3, as the code has it. In the AI-gateway and the Lambda-with-key variant the
  analytics record of every success response has \<^verbatim>\<open>total_tokens\<close> computed as
  \<^verbatim>\<open>input_tokens + output_tokens\<close>; when the assistant content is text, the three are
  numbers and the total is the sum of the other two. In the Lambda-proxy variant each of
  the three fields is the upstream's own value for it, or 0 where the upstream gives none
  (or a falsy one), so the record has the sum property exactly when the upstream's values
  have it; with no upstream analytics all three are 0.
\<close>

theorem total_tokens_by_variant:
  "((v = Gateway \<or> v = LambdaKey) \<and> out_body (fst (serve v p env req)) = ChatBody content a srcs
      \<longrightarrow> an_total_tokens a = js_add_numbers p (an_input_tokens a) (an_output_tokens a)
          \<and> (\<forall>s. content = JStr s
                \<longrightarrow> (\<exists>n. an_input_tokens a = JNum (int n)
                         \<and> an_output_tokens a = JNum (int (estimateTokens s))
                         \<and> an_total_tokens a = JNum (int (n + estimateTokens s)))))
   \<and> (out_body (fst (serve LambdaProxy p env req)) = ChatBody content a srcs
      \<longrightarrow> (\<exists>body. proxy_body p env = Some body
             \<and> an_input_tokens a = js_or (read_optional (property body ''analytics'') ''input_tokens'') (JNum 0)
             \<and> an_output_tokens a = js_or (read_optional (property body ''analytics'') ''output_tokens'') (JNum 0)
             \<and> an_total_tokens a = js_or (read_optional (property body ''analytics'') ''total_tokens'') (JNum 0)
             \<and> (nullish (property body ''analytics'')
                  \<longrightarrow> an_input_tokens a = JNum 0 \<and> an_output_tokens a = JNum 0
                      \<and> an_total_tokens a = JNum 0)))"
proof (intro conjI impI)
  assume h: "(v = Gateway \<or> v = LambdaKey) \<and> out_body (fst (serve v p env req)) = ChatBody content a srcs"
  then obtain request response where
    run: "estimated_success p env request response = Inr (fst (serve v p env req))"
    using serve_estimating_success by blast
  from estimated_success_tokens [OF run] h
  have facts: "an_input_tokens a = JNum (int (inputTokens p request))"
      "estimateTokens_of p content = Inr (an_output_tokens a)"
      "an_total_tokens a = js_add_numbers p (an_input_tokens a) (an_output_tokens a)"
    by auto
  show "an_total_tokens a = js_add_numbers p (an_input_tokens a) (an_output_tokens a)"
    by (rule facts(3))
  show "\<forall>s. content = JStr s
                \<longrightarrow> (\<exists>n. an_input_tokens a = JNum (int n)
                         \<and> an_output_tokens a = JNum (int (estimateTokens s))
                         \<and> an_total_tokens a = JNum (int (n + estimateTokens s)))"
  proof (intro allI impI)
    fix s assume "content = JStr s"
    with facts(2) have out: "an_output_tokens a = JNum (int (estimateTokens s))"
      by (simp add: estimateTokens_of_def)
    with facts(1,3) have "an_total_tokens a = JNum (int (inputTokens p request + estimateTokens s))"
      by (simp add: js_add_numbers_def of_number_def)
    with facts(1) out show "\<exists>n. an_input_tokens a = JNum (int n)
                         \<and> an_output_tokens a = JNum (int (estimateTokens s))
                         \<and> an_total_tokens a = JNum (int (n + estimateTokens s))"
      by blast
  qed
next
  assume "out_body (fst (serve LambdaProxy p env req)) = ChatBody content a srcs"
  then obtain body where b: "proxy_body p env = Some body"
      "an_input_tokens a = js_or (read_optional (property body ''analytics'') ''input_tokens'') (JNum 0)"
      "an_output_tokens a = js_or (read_optional (property body ''analytics'') ''output_tokens'') (JNum 0)"
      "an_total_tokens a = js_or (read_optional (property body ''analytics'') ''total_tokens'') (JNum 0)"
    using serve_proxy_success [of p env req content a srcs] by auto
  then show "\<exists>body. proxy_body p env = Some body
             \<and> an_input_tokens a = js_or (read_optional (property body ''analytics'') ''input_tokens'') (JNum 0)
             \<and> an_output_tokens a = js_or (read_optional (property body ''analytics'') ''output_tokens'') (JNum 0)
             \<and> an_total_tokens a = js_or (read_optional (property body ''analytics'') ''total_tokens'') (JNum 0)
             \<and> (nullish (property body ''analytics'')
                  \<longrightarrow> an_input_tokens a = JNum 0 \<and> an_output_tokens a = JNum 0
                      \<and> an_total_tokens a = JNum 0)"
    by (auto simp: read_optional_def js_or_def)
qed

text \<open>Unfolding the edge functions at the examples.\<close>

lemmas edge_run_simps =
  serve_gateway_def gateway_try_def serve_lambda_def lambda_try_def serve_proxy_def proxy_try_def
  proxy_reply_def proxy_unwrap_def estimated_success_def response_json_def response_ok_def
  assistantContent_def estimateTokens_of_def estimateTokens_div inputTokens_def systemPrompt_def
  prompt_text_def lookup_literal_def departmentPrompts_def departmentSources_def
  generateSources_def generateDefaultSources_def Object_prototype_names_def
  currentSessionId_def department_or_General_def locale_or_default_def caught_def error_message_def
  rate_limited_def payment_required_def access_denied_def read_member_def read_optional_def nullish_def
  js_or_def js_add_numbers_def of_number_def success_tokens_def truthy_string_def
  rag_mode_or_null_def
  example_edge_env_def example_edge_request_def example_request_def Let_def

text \<open>
  Claim C3 as stated fails in the Lambda-proxy variant: an upstream that reports 5 input
  and 7 output tokens and no total gives a record with \<^verbatim>\<open>total_tokens\<close> 0.
\<close>

theorem total_tokens_proxy_counterexample:
  "success_tokens (fst (serve LambdaProxy example_platform
       (example_edge_env (Response \<lparr>http_status = 200, http_body = lambda_reply_analytics\<rparr>))
       example_edge_request))
   = Some (JNum 5, JNum 7, JNum 0)"
  by (simp add: edge_run_simps example_simps)

text \<open>
  The theorem at a completion of the AI gateway (52 input tokens, 3 output tokens) and at a
  Lambda reply without analytics.
\<close>

theorem total_tokens_by_variant_witness:
  "success_tokens (fst (serve Gateway example_platform
       (example_edge_env (Response \<lparr>http_status = 200, http_body = completion_reply\<rparr>))
       example_edge_request))
   = Some (JNum 52, JNum 3, JNum 55)
   \<and> success_tokens (fst (serve LambdaProxy example_platform
       (example_edge_env (Response \<lparr>http_status = 200, http_body = lambda_reply_plain\<rparr>))
       example_edge_request))
   = Some (JNum 0, JNum 0, JNum 0)"
proof -
  let ?g = "fst (serve Gateway example_platform
       (example_edge_env (Response \<lparr>http_status = 200, http_body = completion_reply\<rparr>))
       example_edge_request)"
  let ?l = "fst (serve LambdaProxy example_platform
       (example_edge_env (Response \<lparr>http_status = 200, http_body = lambda_reply_plain\<rparr>))
       example_edge_request)"
  have "\<exists>a srcs. out_body ?g = ChatBody (JStr ''Hello there'') a srcs \<and> an_input_tokens a = JNum 52"
    by (simp add: edge_run_simps example_simps)
  then obtain a srcs where g: "out_body ?g = ChatBody (JStr ''Hello there'') a srcs"
      "an_input_tokens a = JNum 52"
    by blast
  have "\<exists>n. an_input_tokens a = JNum (int n)
           \<and> an_output_tokens a = JNum (int (estimateTokens ''Hello there''))
           \<and> an_total_tokens a = JNum (int (n + estimateTokens ''Hello there''))"
    using total_tokens_by_variant [where v = Gateway and p = example_platform and req = example_edge_request
        and env = "example_edge_env (Response \<lparr>http_status = 200, http_body = completion_reply\<rparr>)"
        and content = "JStr ''Hello there''" and a = a and srcs = srcs] g(1)
    by blast
  with g have first: "success_tokens ?g = Some (JNum 52, JNum 3, JNum 55)"
    by (auto simp: success_tokens_def estimateTokens_div)
  have "\<exists>content b srcs. out_body ?l = ChatBody content b srcs"
    by (simp add: edge_run_simps example_simps)
  then obtain content b srcs' where l: "out_body ?l = ChatBody content b srcs'"
    by blast
  have body: "proxy_body example_platform
        (example_edge_env (Response \<lparr>http_status = 200, http_body = lambda_reply_plain\<rparr>))
      = Some (JObj [(''response'', JStr ''Hello there'')])"
    by (simp add: proxy_body_def proxy_unwrap_def example_edge_env_def example_simps)
  have "an_input_tokens b = JNum 0 \<and> an_output_tokens b = JNum 0 \<and> an_total_tokens b = JNum 0"
    using total_tokens_by_variant [where p = example_platform and req = example_edge_request
        and env = "example_edge_env (Response \<lparr>http_status = 200, http_body = lambda_reply_plain\<rparr>)"
        and content = content and a = b and srcs = srcs'] l body
    by (auto simp: nullish_def read_optional_def js_or_def)
  with l have "success_tokens ?l = Some (JNum 0, JNum 0, JNum 0)"
    by (simp add: success_tokens_def)
  with first show ?thesis by simp
qed

subsection \<open>Rate limiting in the edge functions\<close>

lemma serve_estimating_429:
  assumes "v = Gateway \<or> v = LambdaKey" "snd (serve v p env req) \<noteq> []"
    "upstream env = Response r" "http_status r = 429"
  shows "fst (serve v p env req) = rate_limited"
  using assms
  by (auto simp: serve_gateway_def gateway_try_def serve_lambda_def lambda_try_def response_ok_def
        Let_def split: if_splits option.splits)

lemma serve_proxy_called:
  assumes "snd (serve_proxy p env req) \<noteq> []" "upstream env = Response r"
  shows "\<exists>request. fst (serve_proxy p env req)
           = (case proxy_reply p env request r of
                Inr response \<Rightarrow> response
              | Inl e \<Rightarrow> caught p env ''lambda-llm'' e)"
proof -
  from assms(1) have m: "req_method req \<noteq> ''OPTIONS''"
    by (auto simp: serve_proxy_def split: if_splits)
  with assms(1) obtain request where r: "req_json req = Some request"
    by (cases "req_json req") (auto simp: serve_proxy_def proxy_try_def)
  with m assms(2) have "fst (serve_proxy p env req)
           = (case proxy_reply p env request r of
                Inr response \<Rightarrow> response
              | Inl e \<Rightarrow> caught p env ''lambda-llm'' e)"
    by (simp add: serve_proxy_def proxy_try_def Let_def split: sum.splits)
  then show ?thesis by blast
qed

lemma proxy_unwrap_429:
  assumes "(map_of kvs ''statusCode'' = None \<or> map_of kvs ''body'' = None) \<and> http_status r = 429
     \<or> map_of kvs ''statusCode'' = Some (JNum 429) \<and> map_of kvs ''body'' \<noteq> None"
  shows "\<exists>body. proxy_unwrap p r (JObj kvs) = Inr (JNum 429, body)"
  using assms by (auto simp: proxy_unwrap_def)

lemma proxy_reply_status_429:
  assumes "JSON_parse p (http_body r) = Some lambdaResponse"
    "proxy_unwrap p r lambdaResponse = Inr (JNum 429, body)"
  shows "proxy_reply p env request r = Inr rate_limited"
  using assms by (simp add: proxy_reply_def)

lemma proxy_reply_429:
  assumes "JSON_parse p (http_body r) = Some (JObj kvs)"
    "(map_of kvs ''statusCode'' = None \<or> map_of kvs ''body'' = None) \<and> http_status r = 429
     \<or> map_of kvs ''statusCode'' = Some (JNum 429) \<and> map_of kvs ''body'' \<noteq> None"
  shows "proxy_reply p env request r = Inr rate_limited"
  using proxy_unwrap_429 [OF assms(2)] proxy_reply_status_429 [OF assms(1)] by blast

lemma proxy_reply_not_json:
  "JSON_parse p (http_body r) = None \<Longrightarrow>
   proxy_reply p env request r = Inl (Error ''Invalid Lambda response format'')"
  by (simp add: proxy_reply_def)

text \<open>
  Claim C5, as the code has it. In the AI-gateway and the Lambda-with-key variant, whenever
  the upstream is called and answers with HTTP 429, the response has status 429 and the
  body \<^verbatim>\<open>{error: "Rate limits exceeded, please try again later.", analytics: null}\<close>. The
  Lambda-proxy variant reads the reply before it looks at the status: it gives the same
  response when the reply is a JSON object and the status code it carries (its own
  \<^verbatim>\<open>statusCode\<close> if it is an envelope, the HTTP status otherwise) is 429; a reply that is
  not JSON is answered with status 500 and \<^verbatim>\<open>Invalid Lambda response format\<close>, whatever
  its HTTP status.
\<close>

theorem rate_limit_response:
  "((v = Gateway \<or> v = LambdaKey) \<and> snd (serve v p env req) \<noteq> []
      \<and> upstream env = Response r \<and> http_status r = 429
     \<longrightarrow> fst (serve v p env req) = rate_limited)
   \<and> (snd (serve LambdaProxy p env req) \<noteq> [] \<and> upstream env = Response r
      \<and> JSON_parse p (http_body r) = Some (JObj kvs)
      \<and> ((map_of kvs ''statusCode'' = None \<or> map_of kvs ''body'' = None) \<and> http_status r = 429
          \<or> map_of kvs ''statusCode'' = Some (JNum 429) \<and> map_of kvs ''body'' \<noteq> None)
     \<longrightarrow> fst (serve LambdaProxy p env req) = rate_limited)
   \<and> (snd (serve LambdaProxy p env req) \<noteq> [] \<and> upstream env = Response r
      \<and> JSON_parse p (http_body r) = None
     \<longrightarrow> fst (serve LambdaProxy p env req)
           = caught p env ''lambda-llm'' (Error ''Invalid Lambda response format''))"
proof (intro conjI impI)
  assume "(v = Gateway \<or> v = LambdaKey) \<and> snd (serve v p env req) \<noteq> []
      \<and> upstream env = Response r \<and> http_status r = 429"
  then show "fst (serve v p env req) = rate_limited"
    using serve_estimating_429 by blast
next
  assume a: "snd (serve LambdaProxy p env req) \<noteq> [] \<and> upstream env = Response r
      \<and> JSON_parse p (http_body r) = Some (JObj kvs)
      \<and> ((map_of kvs ''statusCode'' = None \<or> map_of kvs ''body'' = None) \<and> http_status r = 429
          \<or> map_of kvs ''statusCode'' = Some (JNum 429) \<and> map_of kvs ''body'' \<noteq> None)"
  then obtain request where "fst (serve_proxy p env req)
           = (case proxy_reply p env request r of
                Inr response \<Rightarrow> response
              | Inl e \<Rightarrow> caught p env ''lambda-llm'' e)"
    using serve_proxy_called [of p env req r] by auto
  moreover from a have "proxy_reply p env request r = Inr rate_limited"
    using proxy_reply_429 [of p r kvs env request] by blast
  ultimately show "fst (serve LambdaProxy p env req) = rate_limited"
    by simp
next
  assume a: "snd (serve LambdaProxy p env req) \<noteq> [] \<and> upstream env = Response r
      \<and> JSON_parse p (http_body r) = None"
  then obtain request where "fst (serve_proxy p env req)
           = (case proxy_reply p env request r of
                Inr response \<Rightarrow> response
              | Inl e \<Rightarrow> caught p env ''lambda-llm'' e)"
    using serve_proxy_called [of p env req r] by auto
  moreover from a have "proxy_reply p env request r = Inl (Error ''Invalid Lambda response format'')"
    using proxy_reply_not_json by blast
  ultimately show "fst (serve LambdaProxy p env req)
           = caught p env ''lambda-llm'' (Error ''Invalid Lambda response format'')"
    by simp
qed

text \<open>
  Claim C5 as stated fails in the Lambda-proxy variant: an upstream reply with HTTP 429
  and a body that is not JSON is answered with status 500, not with the rate-limit
  response.
\<close>

theorem rate_limit_not_json_counterexample:
  "snd (serve LambdaProxy example_platform
          (example_edge_env (Response \<lparr>http_status = 429, http_body = ''Too Many Requests''\<rparr>))
          example_edge_request) \<noteq> []
   \<and> out_status (fst (serve LambdaProxy example_platform
          (example_edge_env (Response \<lparr>http_status = 429, http_body = ''Too Many Requests''\<rparr>))
          example_edge_request)) = 500
   \<and> out_body (fst (serve LambdaProxy example_platform
          (example_edge_env (Response \<lparr>http_status = 429, http_body = ''Too Many Requests''\<rparr>))
          example_edge_request))
      \<noteq> ErrorBody ''Rate limits exceeded, please try again later.'' None"
  by (simp add: edge_run_simps example_simps)

text \<open>
  The theorem at HTTP 429 replies: with a plain-text body in the two estimating variants,
  with a JSON body and with a plain-text body in the proxy variant.
\<close>

theorem rate_limit_response_witness:
  "fst (serve Gateway example_platform
          (example_edge_env (Response \<lparr>http_status = 429, http_body = ''Too Many Requests''\<rparr>))
          example_edge_request)
     = \<lparr>out_status = 429,
        out_body = ErrorBody ''Rate limits exceeded, please try again later.'' None\<rparr>
   \<and> fst (serve LambdaKey example_platform
          (example_edge_env (Response \<lparr>http_status = 429, http_body = ''Too Many Requests''\<rparr>))
          example_edge_request)
     = \<lparr>out_status = 429,
        out_body = ErrorBody ''Rate limits exceeded, please try again later.'' None\<rparr>
   \<and> fst (serve LambdaProxy example_platform
          (example_edge_env (Response \<lparr>http_status = 429, http_body = too_many_json\<rparr>))
          example_edge_request)
     = \<lparr>out_status = 429,
        out_body = ErrorBody ''Rate limits exceeded, please try again later.'' None\<rparr>
   \<and> out_status (fst (serve LambdaProxy example_platform
          (example_edge_env (Response \<lparr>http_status = 429, http_body = ''Too Many Requests''\<rparr>))
          example_edge_request)) = 500"
proof -
  let ?plain = "\<lparr>http_status = 429, http_body = ''Too Many Requests''\<rparr>"
  let ?json = "\<lparr>http_status = 429, http_body = too_many_json\<rparr>"
  have called:
    "snd (serve Gateway example_platform (example_edge_env (Response ?plain)) example_edge_request) \<noteq> []"
    "snd (serve LambdaKey example_platform (example_edge_env (Response ?plain)) example_edge_request) \<noteq> []"
    "snd (serve LambdaProxy example_platform (example_edge_env (Response ?plain)) example_edge_request) \<noteq> []"
    "snd (serve LambdaProxy example_platform (example_edge_env (Response ?json)) example_edge_request) \<noteq> []"
    by (simp_all add: serve_gateway_def gateway_try_def serve_lambda_def lambda_try_def
          serve_proxy_def proxy_try_def example_edge_env_def example_edge_request_def
          example_request_def Let_def split: sum.splits)
  have parse:
    "JSON_parse example_platform too_many_json = Some (JObj [(''message'', JStr ''Too Many Requests'')])"
    "JSON_parse example_platform ''Too Many Requests'' = None"
    by (simp_all add: example_simps)
  have up: "upstream (example_edge_env reply) = reply" for reply
    by (simp add: example_edge_env_def)
  show ?thesis
    using
      rate_limit_response [where v = Gateway and p = example_platform
        and env = "example_edge_env (Response ?plain)" and req = example_edge_request and r = ?plain]
      rate_limit_response [where v = LambdaKey and p = example_platform
        and env = "example_edge_env (Response ?plain)" and req = example_edge_request and r = ?plain]
      rate_limit_response [where p = example_platform
        and env = "example_edge_env (Response ?json)" and req = example_edge_request and r = ?json
        and kvs = "[(''message'', JStr ''Too Many Requests'')]"]
      rate_limit_response [where p = example_platform
        and env = "example_edge_env (Response ?plain)" and req = example_edge_request and r = ?plain]
      called parse up
    by (simp add: rate_limited_def caught_def)
qed

subsection \<open>Department lookup\<close>

text \<open>
  For every department that is not the name of a member of \<^verbatim>\<open>Object.prototype\<close>, the
  lookups do what their fallbacks say: outside the four keys the generic prompt and no
  canned sources, and for each of the four keys its two sources.
\<close>

lemma department_lookup_regular:
  assumes "department \<notin> set Object_prototype_names"
  shows "department \<notin> {''HR'', ''Finance'', ''IT'', ''Operations''}
           \<longrightarrow> systemPrompt department = Text generic_prompt
               \<and> generateSources department = SourceList []
               \<and> generateDefaultSources department = SourceList []"
    and "department \<in> {''HR'', ''Finance'', ''IT'', ''Operations''}
           \<longrightarrow> (\<exists>s1 s2. generateSources department = SourceList [s1, s2]
                         \<and> generateDefaultSources department = SourceList [s1, s2]
                         \<and> map_of departmentSources department = Some [s1, s2])"
  using assms
  by (auto simp: systemPrompt_def generateSources_def generateDefaultSources_def lookup_literal_def
        departmentPrompts_def departmentSources_def)

text \<open>
  Claim C7 does not hold of the code. For the department \<^verbatim>\<open>constructor\<close>, which is not one
  of the four keys, \<^verbatim>\<open>departmentPrompts[department]\<close> and \<^verbatim>\<open>departmentSources[department]\<close>
  find the builtin function inherited from \<^verbatim>\<open>Object.prototype\<close>; it is truthy, so neither
  the generic prompt nor the empty list is chosen, and the system message goes upstream
  without content.
\<close>

theorem department_constructor_lookup:
  "systemPrompt ''constructor'' = BuiltinFunction ''constructor''
   \<and> generateSources ''constructor'' = BuiltinValue ''constructor''
   \<and> generateDefaultSources ''constructor'' = BuiltinValue ''constructor''
   \<and> upstream_messages (example_request\<lparr>req_department := ''constructor''\<rparr>)
       = JArr [JObj [(''role'', JStr ''system'')],
               JObj [(''role'', JStr ''user''), (''content'', JStr ''What is the leave policy?'')]]"
  by (simp add: systemPrompt_def generateSources_def generateDefaultSources_def lookup_literal_def
        departmentPrompts_def departmentSources_def Object_prototype_names_def upstream_messages_def
        example_request_def)

subsection \<open>Daily usage\<close>

text \<open>
  A key of the shape of an ISO day is a plain dictionary key: it is not the name of a
  member of \<^verbatim>\<open>Object.prototype\<close>, and it is not a string of digits, so not an array
  index.
\<close>

lemma iso_day_plain_key:
  assumes "iso_day d"
  shows "d \<notin> set (''__proto__'' # Object_prototype_names)"
    and "\<not> list_all (\<lambda>c. c \<in> set ''0123456789'') d"
proof -
  from assms have allowed: "\<forall>c \<in> set d. c \<in> set ''0123456789+-''" and dash: "CHR ''-'' \<in> set d"
    unfolding iso_day_def list_all_iff by blast+
  from dash have "d \<noteq> []" by auto
  with allowed have head: "hd d \<in> set ''0123456789+-''"
    by (cases d) simp_all
  show "d \<notin> set (''__proto__'' # Object_prototype_names)"
  proof
    assume "d \<in> set (''__proto__'' # Object_prototype_names)"
    then have "hd d \<in> set ''chiptv_''"
      unfolding Object_prototype_names_def by auto
    with head show False by auto
  qed
  have "CHR ''-'' \<notin> set ''0123456789''" by simp
  with dash show "\<not> list_all (\<lambda>c. c \<in> set ''0123456789'') d"
    unfolding list_all_iff by blast
qed











end
